theory Spec2Isabelle
  imports Complex_Main
begin

section \<open>The escrow contract (contracts/EscrowContract.sol)\<close>

text \<open>
  Solidity values: an \<open>address\<close> and a \<open>uint256\<close> are natural numbers. Solidity 0.8
  checks every arithmetic operation: a result outside \<open>0 .. 2^256 - 1\<close> panics and the
  transaction reverts. A reverted transaction changes nothing, so every external function
  returns either the reason of the revert or the new contract state together with the
  token calls it made.
\<close>

type_synonym address = nat
type_synonym uint256 = nat

datatype DealStatus = Created | Funded | PaymentSent | Completed | Disputed | Cancelled

record Deal =
  dealId :: uint256
  buyer :: address
  seller :: address
  token :: address
  amount :: uint256
  inrAmount :: uint256
  status :: DealStatus
  createdAt :: uint256
  expiresAt :: uint256
  sellerConfirmed :: bool
  buyerConfirmed :: bool

text \<open>One call of the ERC20 token: \<open>safeTransfer\<close> moves from the contract itself,
  \<open>safeTransferFrom\<close> from the named owner.\<close>

record transfer =
  tok :: address
  src :: address
  dst :: address
  amt :: uint256

record escrow =
  deals :: "uint256 \<Rightarrow> Deal"
  userReputation :: "address \<Rightarrow> uint256"
  nextDealId :: uint256
  arbitrator :: address
  feeRecipient :: address
  platformFeePercent :: uint256

text \<open>The transaction context. The token contracts are not part of the repository:
  \<open>token_ok\<close> says which calls the token carries out; SafeERC20 reverts on every other.\<close>

record msg =
  msg_sender :: address
  msg_value :: uint256
  block_timestamp :: uint256
  this :: address
  token_ok :: "transfer \<Rightarrow> bool"

datatype revert = Require string | Panic | TokenFailed

type_synonym 'a tx = "revert + 'a"

definition MAX_UINT256 :: nat where
  "MAX_UINT256 = 2 ^ 256 - 1"

definition DEAL_TIMEOUT :: uint256 where
  "DEAL_TIMEOUT = 24 * 3600"

definition DISPUTE_FEE :: uint256 where
  "DISPUTE_FEE = 10 ^ 15"

definition ONE_HOUR :: uint256 where
  "ONE_HOUR = 3600"

definition checked_add :: "uint256 \<Rightarrow> uint256 \<Rightarrow> uint256 tx" where
  "checked_add a b = (if a + b \<le> MAX_UINT256 then Inr (a + b) else Inl Panic)"

definition checked_sub :: "uint256 \<Rightarrow> uint256 \<Rightarrow> uint256 tx" where
  "checked_sub a b = (if b \<le> a then Inr (a - b) else Inl Panic)"

definition checked_mul :: "uint256 \<Rightarrow> uint256 \<Rightarrow> uint256 tx" where
  "checked_mul a b = (if a * b \<le> MAX_UINT256 then Inr (a * b) else Inl Panic)"

definition bind_tx :: "'a tx \<Rightarrow> ('a \<Rightarrow> 'b tx) \<Rightarrow> 'b tx" where
  "bind_tx m f = (case m of Inl e \<Rightarrow> Inl e | Inr x \<Rightarrow> f x)"

definition safeTransfer :: "msg \<Rightarrow> address \<Rightarrow> address \<Rightarrow> uint256 \<Rightarrow> transfer list tx" where
  "safeTransfer m t to_addr a =
     (let c = \<lparr>tok = t, src = this m, dst = to_addr, amt = a\<rparr>
      in if token_ok m c then Inr [c] else Inl TokenFailed)"

definition safeTransferFrom :: "msg \<Rightarrow> address \<Rightarrow> address \<Rightarrow> address \<Rightarrow> uint256 \<Rightarrow> transfer list tx" where
  "safeTransferFrom m t owner to_addr a =
     (let c = \<lparr>tok = t, src = owner, dst = to_addr, amt = a\<rparr>
      in if token_ok m c then Inr [c] else Inl TokenFailed)"

definition set_deal :: "escrow \<Rightarrow> uint256 \<Rightarrow> Deal \<Rightarrow> escrow" where
  "set_deal s i d = s\<lparr>deals := (deals s)(i := d)\<rparr>"

definition constructor :: "address \<Rightarrow> address \<Rightarrow> escrow" where
  "constructor a f =
     \<lparr>deals = (\<lambda>_. \<lparr>dealId = 0, buyer = 0, seller = 0, token = 0, amount = 0, inrAmount = 0,
          status = Created, createdAt = 0, expiresAt = 0,
          sellerConfirmed = False, buyerConfirmed = False\<rparr>),
      userReputation = (\<lambda>_. 0), nextDealId = 1,
      arbitrator = a, feeRecipient = f, platformFeePercent = 50\<rparr>"

definition createDeal_escrow ::
  "msg \<Rightarrow> escrow \<Rightarrow> address \<Rightarrow> address \<Rightarrow> uint256 \<Rightarrow> uint256 \<Rightarrow> (escrow \<times> uint256) tx" where
  "createDeal_escrow m s seller' token' amount' inrAmount' =
     (if seller' = msg_sender m then Inl (Require ''Cannot trade with yourself'')
      else if \<not> 0 < amount' then Inl (Require ''Amount must be greater than 0'')
      else if \<not> 0 < inrAmount' then Inl (Require ''INR amount must be greater than 0'')
      else bind_tx (checked_add (nextDealId s) 1) (\<lambda>next.
           bind_tx (checked_add (block_timestamp m) DEAL_TIMEOUT) (\<lambda>expires.
             let i = nextDealId s;
                 d = \<lparr>dealId = i, buyer = msg_sender m, seller = seller', token = token',
                      amount = amount', inrAmount = inrAmount', status = Created,
                      createdAt = block_timestamp m, expiresAt = expires,
                      sellerConfirmed = False, buyerConfirmed = False\<rparr>
             in Inr (set_deal (s\<lparr>nextDealId := next\<rparr>) i d, i))))"

definition fundDeal :: "msg \<Rightarrow> escrow \<Rightarrow> uint256 \<Rightarrow> (escrow \<times> transfer list) tx" where
  "fundDeal m s i =
     (let deal = deals s i in
      if buyer deal \<noteq> msg_sender m then Inl (Require ''Only buyer can fund'')
      else if status deal \<noteq> Created then Inl (Require ''Deal not in created state'')
      else if \<not> block_timestamp m \<le> expiresAt deal then Inl (Require ''Deal expired'')
      else bind_tx (safeTransferFrom m (token deal) (msg_sender m) (this m) (amount deal)) (\<lambda>calls.
           Inr (set_deal s i (deal\<lparr>status := Funded\<rparr>), calls)))"

definition confirmPaymentSent :: "msg \<Rightarrow> escrow \<Rightarrow> uint256 \<Rightarrow> escrow tx" where
  "confirmPaymentSent m s i =
     (let deal = deals s i in
      if buyer deal \<noteq> msg_sender m then Inl (Require ''Only buyer can confirm payment'')
      else if status deal \<noteq> Funded then Inl (Require ''Deal not funded'')
      else Inr (set_deal s i (deal\<lparr>status := PaymentSent, buyerConfirmed := True\<rparr>)))"

text \<open>The release to the seller, shared by \<open>confirmPaymentReceived\<close> and the seller's
  branch of \<open>resolveDispute\<close>: the fee, the seller's amount, the transfer to the seller and,
  when the fee is positive, the transfer to the fee recipient.\<close>

definition release_to_seller :: "msg \<Rightarrow> escrow \<Rightarrow> Deal \<Rightarrow> transfer list tx" where
  "release_to_seller m s deal =
     bind_tx (checked_mul (amount deal) (platformFeePercent s)) (\<lambda>product.
       let fee = product div 10000 in
       bind_tx (checked_sub (amount deal) fee) (\<lambda>sellerAmount.
       bind_tx (safeTransfer m (token deal) (seller deal) sellerAmount) (\<lambda>c1.
       if 0 < fee
       then bind_tx (safeTransfer m (token deal) (feeRecipient s) fee) (\<lambda>c2. Inr (c1 @ c2))
       else Inr c1)))"

definition increment :: "(address \<Rightarrow> uint256) \<Rightarrow> address \<Rightarrow> (address \<Rightarrow> uint256) tx" where
  "increment r a = bind_tx (checked_add (r a) 1) (\<lambda>n. Inr (r(a := n)))"

definition confirmPaymentReceived :: "msg \<Rightarrow> escrow \<Rightarrow> uint256 \<Rightarrow> (escrow \<times> transfer list) tx" where
  "confirmPaymentReceived m s i =
     (let deal = deals s i in
      if seller deal \<noteq> msg_sender m then Inl (Require ''Only seller can confirm'')
      else if status deal \<noteq> PaymentSent then Inl (Require ''Payment not sent'')
      else
        let deal1 = deal\<lparr>sellerConfirmed := True\<rparr> in
        bind_tx (release_to_seller m s deal1) (\<lambda>calls.
          let deal2 = deal1\<lparr>status := Completed\<rparr> in
          bind_tx (increment (userReputation s) (buyer deal2)) (\<lambda>r1.
          bind_tx (increment r1 (seller deal2)) (\<lambda>r2.
            Inr (set_deal (s\<lparr>userReputation := r2\<rparr>) i deal2, calls)))))"

definition initiateDispute :: "msg \<Rightarrow> escrow \<Rightarrow> uint256 \<Rightarrow> escrow tx" where
  "initiateDispute m s i =
     (let deal = deals s i in
      if \<not> (msg_sender m = buyer deal \<or> msg_sender m = seller deal) then Inl (Require ''Not authorized'')
      else if \<not> DISPUTE_FEE \<le> msg_value m then Inl (Require ''Insufficient dispute fee'')
      else if \<not> (status deal = Funded \<or> status deal = PaymentSent)
        then Inl (Require ''Cannot dispute at this stage'')
      else Inr (set_deal s i (deal\<lparr>status := Disputed\<rparr>)))"

definition resolveDispute :: "msg \<Rightarrow> escrow \<Rightarrow> uint256 \<Rightarrow> bool \<Rightarrow> (escrow \<times> transfer list) tx" where
  "resolveDispute m s i favorBuyer =
     (if msg_sender m \<noteq> arbitrator s then Inl (Require ''Only arbitrator'')
      else
        let deal = deals s i in
        if status deal \<noteq> Disputed then Inl (Require ''Deal not disputed'')
        else
          bind_tx (if favorBuyer
                   then safeTransfer m (token deal) (buyer deal) (amount deal)
                   else release_to_seller m s deal) (\<lambda>calls.
            Inr (set_deal s i (deal\<lparr>status := Completed\<rparr>), calls)))"

definition cancelDeal :: "msg \<Rightarrow> escrow \<Rightarrow> uint256 \<Rightarrow> escrow tx" where
  "cancelDeal m s i =
     (let deal = deals s i in
      if \<not> (msg_sender m = buyer deal \<or> msg_sender m = seller deal) then Inl (Require ''Not authorized'')
      else if status deal \<noteq> Created then Inl (Require ''Cannot cancel funded deal'')
      else Inr (set_deal s i (deal\<lparr>status := Cancelled\<rparr>)))"

definition emergencyRefund :: "msg \<Rightarrow> escrow \<Rightarrow> uint256 \<Rightarrow> (escrow \<times> transfer list) tx" where
  "emergencyRefund m s i =
     (let deal = deals s i in
      if buyer deal \<noteq> msg_sender m then Inl (Require ''Only buyer can refund'')
      else if status deal \<noteq> Funded then Inl (Require ''Deal not funded'')
      else bind_tx (checked_add (expiresAt deal) ONE_HOUR) (\<lambda>limit.
        if \<not> limit < block_timestamp m then Inl (Require ''Deal not expired enough'')
        else bind_tx (safeTransfer m (token deal) (buyer deal) (amount deal)) (\<lambda>calls.
          Inr (set_deal s i (deal\<lparr>status := Cancelled\<rparr>), calls))))"

definition updatePlatformFee :: "msg \<Rightarrow> escrow \<Rightarrow> uint256 \<Rightarrow> escrow tx" where
  "updatePlatformFee m s newFeePercent =
     (if msg_sender m \<noteq> arbitrator s then Inl (Require ''Only arbitrator'')
      else if \<not> newFeePercent \<le> 500 then Inl (Require ''Fee too high'')
      else Inr (s\<lparr>platformFeePercent := newFeePercent\<rparr>))"

text \<open>The tokens that leave the contract in a list of token calls.\<close>

definition paid_out :: "msg \<Rightarrow> transfer list \<Rightarrow> nat" where
  "paid_out m calls = sum_list (map amt (filter (\<lambda>c. src c = this m) calls))"

text \<open>The transfers of a release to the seller as the specification words them: the
  seller receives the amount minus the fee, the fee is the floor of
  \<open>amount * platformFeePercent / 10000\<close>, and the fee recipient receives the fee unless
  it is zero.\<close>

definition seller_release_spec :: "msg \<Rightarrow> escrow \<Rightarrow> Deal \<Rightarrow> transfer list" where
  "seller_release_spec m s d =
     (let fee = amount d * platformFeePercent s div 10000 in
      \<lparr>tok = token d, src = this m, dst = seller d, amt = amount d - fee\<rparr> #
      (if 0 < fee then [\<lparr>tok = token d, src = this m, dst = feeRecipient s, amt = fee\<rparr>] else []))"

text \<open>A run of the contract used to instantiate the theorems: the arbitrator is 100, the
  fee recipient 200, the contract's own address 999, the token 77; account 11 creates deal 1
  with seller 12 for 1000000 token units.\<close>

definition example_msg :: "address \<Rightarrow> uint256 \<Rightarrow> msg" where
  "example_msg a v =
     \<lparr>msg_sender = a, msg_value = v, block_timestamp = 1000, this = 999, token_ok = (\<lambda>_. True)\<rparr>"

definition example_deal :: "DealStatus \<Rightarrow> bool \<Rightarrow> Deal" where
  "example_deal st bc =
     \<lparr>dealId = 1, buyer = 11, seller = 12, token = 77, amount = 1000000, inrAmount = 300000,
      status = st, createdAt = 1000, expiresAt = 87400,
      sellerConfirmed = False, buyerConfirmed = bc\<rparr>"

definition example_escrow :: "DealStatus \<Rightarrow> bool \<Rightarrow> escrow" where
  "example_escrow st bc =
     set_deal ((constructor 100 200)\<lparr>nextDealId := 1 + 1\<rparr>) 1 (example_deal st bc)"

section \<open>The off-chain store (lib/database.ts) and the deal routes (app/api/deals)\<close>

text \<open>
  A UUID and a TEXT column are strings, a timestamp is a number of seconds, and a JavaScript
  number or an SQL DECIMAL is a rational number: comparisons are exact, and the arithmetic
  of the handlers is taken exactly (the rounding of IEEE doubles is not modelled). What the
  store does to a number is modelled: a DECIMAL(p, s) column rounds to \<open>s\<close> decimal places,
  ties away from zero, and refuses a value that needs more than \<open>p\<close> digits.

  The status columns are TEXT columns guarded by CHECK constraints, as in the source.
  Columns that no modelled operation reads or writes are left out of the rows; every
  table has its columns prefixed by the alias the queries use for it.
\<close>

type_synonym uuid = string
type_synonym timestamp = nat
type_synonym numeric = rat

definition round_half_away :: "rat \<Rightarrow> int" where
  "round_half_away x = (if 0 \<le> x then \<lfloor>x + 1 / 2\<rfloor> else - \<lfloor>- x + 1 / 2\<rfloor>)"

definition pg_round :: "nat \<Rightarrow> numeric \<Rightarrow> numeric" where
  "pg_round s x = of_int (round_half_away (x * 10 ^ s)) / 10 ^ s"

definition store_decimal :: "nat \<Rightarrow> nat \<Rightarrow> numeric \<Rightarrow> numeric option" where
  "store_decimal p s x =
     (let r = pg_round s x in if \<bar>r\<bar> < 10 ^ (p - s) then Some r else None)"

record UserRow =
  u_id :: uuid
  u_wallet_address :: string
  u_reputation_score :: int
  u_total_trades :: int
  u_successful_trades :: int

record AdRow =
  a_id :: uuid
  a_user_id :: uuid
  a_asset :: string
  a_type :: string
  a_amount :: numeric
  a_price :: numeric
  a_min_amount :: "numeric option"
  a_max_amount :: "numeric option"
  a_payment_method :: string
  a_upi_id :: "string option"
  a_status :: string

record DealRow =
  d_id :: uuid
  d_ad_id :: uuid
  d_buyer_id :: uuid
  d_seller_id :: uuid
  d_amount :: numeric
  d_price :: numeric
  d_total_inr :: numeric
  d_escrow_contract_address :: "string option"
  d_transaction_hash :: "string option"
  d_deal_id_on_chain :: "int option"
  d_status :: string
  d_payment_method :: string
  d_payment_details :: "string option"
  d_upi_id :: "string option"
  d_buyer_rating :: "int option"
  d_seller_rating :: "int option"
  d_buyer_feedback :: "string option"
  d_seller_feedback :: "string option"
  d_created_at :: timestamp
  d_updated_at :: timestamp
  d_funded_at :: "timestamp option"
  d_payment_sent_at :: "timestamp option"
  d_completed_at :: "timestamp option"
  d_expires_at :: timestamp

text \<open>A notification's message is a template literal: text with numbers spliced in.\<close>

datatype part = Txt string | Num numeric | Rupee

record NotificationRow =
  n_user_id :: uuid
  n_title :: string
  n_message :: "part list"
  n_type :: string
  n_related_id :: "uuid option"
  n_is_read :: bool

record db =
  users :: "UserRow list"
  ads :: "AdRow list"
  deal_rows :: "DealRow list"
  notifications :: "NotificationRow list"

datatype db_error = CheckViolation | ForeignKeyViolation | UniqueViolation | NumericOverflow

type_synonym 'a query = "db_error + 'a"

text \<open>\<open>String.prototype.toLowerCase\<close> on the ASCII letters; wallet addresses are
  hexadecimal ASCII.\<close>

definition lower_char :: "char \<Rightarrow> char" where
  "lower_char c =
     (case map_of (zip ''ABCDEFGHIJKLMNOPQRSTUVWXYZ'' ''abcdefghijklmnopqrstuvwxyz'') c of
        None \<Rightarrow> c
      | Some l \<Rightarrow> l)"

definition toLowerCase :: "string \<Rightarrow> string" where
  "toLowerCase w = map lower_char w"

definition getUserByWallet :: "db \<Rightarrow> string \<Rightarrow> UserRow option" where
  "getUserByWallet s walletAddress =
     find (\<lambda>u. u_wallet_address u = toLowerCase walletAddress) (users s)"

definition user_exists :: "db \<Rightarrow> uuid \<Rightarrow> bool" where
  "user_exists s uid = (find (\<lambda>u. u_id u = uid) (users s) \<noteq> None)"

text \<open>\<open>getAdById\<close>: the ad joined with its owner; only active ads are returned.\<close>

definition getAdById :: "db \<Rightarrow> uuid \<Rightarrow> AdRow option" where
  "getAdById s adId =
     find (\<lambda>a. user_exists s (a_user_id a) \<and> a_id a = adId \<and> a_status a = ''active'') (ads s)"

definition getDealById :: "db \<Rightarrow> uuid \<Rightarrow> DealRow option" where
  "getDealById s dealId' = find (\<lambda>d. d_id d = dealId') (deal_rows s)"

definition ad_exists :: "db \<Rightarrow> uuid \<Rightarrow> bool" where
  "ad_exists s aid = (find (\<lambda>a. a_id a = aid) (ads s) \<noteq> None)"

text \<open>The CHECK constraints of the \<open>deals\<close> table (\<open>initializeTables\<close>).\<close>

definition deal_statuses :: "string list" where
  "deal_statuses =
     [''initiated'', ''funded'', ''payment_sent'', ''completed'', ''disputed'', ''cancelled'',
      ''expired'']"

definition rating_check :: "int option \<Rightarrow> bool" where
  "rating_check r = (case r of None \<Rightarrow> True | Some x \<Rightarrow> 1 \<le> x \<and> x \<le> 5)"

definition deal_row_check :: "DealRow \<Rightarrow> bool" where
  "deal_row_check d =
     (0 < d_amount d \<and> 0 < d_price d \<and> 0 < d_total_inr d \<and> d_status d \<in> set deal_statuses \<and>
      rating_check (d_buyer_rating d) \<and> rating_check (d_seller_rating d))"

text \<open>The object \<open>createDeal\<close> receives. Its \<open>status\<close> property is not among the inserted
  columns: the column takes its default, \<open>initiated\<close>.\<close>

record DealData =
  new_ad_id :: uuid
  new_buyer_id :: uuid
  new_seller_id :: uuid
  new_amount :: numeric
  new_price :: numeric
  new_total_inr :: numeric
  new_payment_method :: string
  new_upi_id :: "string option"
  new_payment_details :: "string option"

text \<open>JavaScript's \<open>x || null\<close> on an optional string.\<close>

definition or_null :: "string option \<Rightarrow> string option" where
  "or_null x = (case x of None \<Rightarrow> None | Some v \<Rightarrow> if v = [] then None else Some v)"

text \<open>\<open>createDeal\<close>: the INSERT. \<open>now\<close> is the statement's \<open>NOW()\<close> and \<open>fresh\<close> the
  identifier \<open>gen_random_uuid()\<close> produces.\<close>

definition createDeal :: "timestamp \<Rightarrow> uuid \<Rightarrow> db \<Rightarrow> DealData \<Rightarrow> (db \<times> DealRow) query" where
  "createDeal now fresh s dealData =
     (case (store_decimal 18 8 (new_amount dealData), store_decimal 12 2 (new_price dealData),
            store_decimal 12 2 (new_total_inr dealData)) of
        (Some a, Some p, Some t) \<Rightarrow>
          let row = \<lparr>d_id = fresh, d_ad_id = new_ad_id dealData,
                     d_buyer_id = new_buyer_id dealData, d_seller_id = new_seller_id dealData,
                     d_amount = a, d_price = p, d_total_inr = t,
                     d_escrow_contract_address = None, d_transaction_hash = None,
                     d_deal_id_on_chain = None, d_status = ''initiated'',
                     d_payment_method = new_payment_method dealData,
                     d_payment_details = new_payment_details dealData,
                     d_upi_id = or_null (new_upi_id dealData),
                     d_buyer_rating = None, d_seller_rating = None,
                     d_buyer_feedback = None, d_seller_feedback = None,
                     d_created_at = now, d_updated_at = now, d_funded_at = None,
                     d_payment_sent_at = None, d_completed_at = None,
                     d_expires_at = now + 24 * 3600\<rparr>
          in if \<not> deal_row_check row then Inl CheckViolation
             else if getDealById s fresh \<noteq> None then Inl UniqueViolation
             else if \<not> (ad_exists s (d_ad_id row) \<and> user_exists s (d_buyer_id row) \<and>
                         user_exists s (d_seller_id row))
               then Inl ForeignKeyViolation
             else Inr (s\<lparr>deal_rows := deal_rows s @ [row]\<rparr>, row)
      | _ \<Rightarrow> Inl NumericOverflow)"

text \<open>The \<open>additionalData\<close> of \<open>updateDealStatus\<close>, with the keys the route handler sets;
  \<open>None\<close> is a key that is absent or \<open>undefined\<close>.\<close>

record DealUpdate =
  upd_transaction_hash :: "string option"
  upd_escrow_contract_address :: "string option"
  upd_deal_id_on_chain :: "int option"
  upd_payment_details :: "string option"
  upd_seller_rating :: "int option"
  upd_seller_feedback :: "string option"
  upd_buyer_rating :: "int option"
  upd_buyer_feedback :: "string option"

definition assigned :: "'a option \<Rightarrow> 'a option \<Rightarrow> 'a option" where
  "assigned new old = (case new of None \<Rightarrow> old | Some v \<Rightarrow> Some v)"

text \<open>The SET list of \<open>updateDealStatus\<close>, applied to one row.\<close>

definition set_fields :: "timestamp \<Rightarrow> string \<Rightarrow> DealUpdate \<Rightarrow> DealRow \<Rightarrow> DealRow" where
  "set_fields now st additionalData d =
     d\<lparr>d_status := st,
       d_updated_at := now,
       d_funded_at := (if st = ''funded'' then Some now else d_funded_at d),
       d_payment_sent_at := (if st = ''payment_sent'' then Some now else d_payment_sent_at d),
       d_completed_at := (if st = ''completed'' then Some now else d_completed_at d),
       d_transaction_hash := assigned (upd_transaction_hash additionalData) (d_transaction_hash d),
       d_escrow_contract_address :=
         assigned (upd_escrow_contract_address additionalData) (d_escrow_contract_address d),
       d_deal_id_on_chain := assigned (upd_deal_id_on_chain additionalData) (d_deal_id_on_chain d),
       d_payment_details := assigned (upd_payment_details additionalData) (d_payment_details d),
       d_seller_rating := assigned (upd_seller_rating additionalData) (d_seller_rating d),
       d_seller_feedback := assigned (upd_seller_feedback additionalData) (d_seller_feedback d),
       d_buyer_rating := assigned (upd_buyer_rating additionalData) (d_buyer_rating d),
       d_buyer_feedback := assigned (upd_buyer_feedback additionalData) (d_buyer_feedback d)\<rparr>"

text \<open>\<open>updateDealStatus\<close>: \<open>UPDATE deals SET ... WHERE id = $1 RETURNING *\<close>. The only
  condition on the stored row is its id. A new row that violates a CHECK constraint fails
  the statement; the result is the first returned row, if any.\<close>

definition updateDealStatus ::
  "timestamp \<Rightarrow> db \<Rightarrow> uuid \<Rightarrow> string \<Rightarrow> DealUpdate \<Rightarrow> (db \<times> DealRow option) query" where
  "updateDealStatus now s dealId' st additionalData =
     (let rows = map (\<lambda>d. if d_id d = dealId' then set_fields now st additionalData d else d)
                  (deal_rows s)
      in if \<not> list_all (\<lambda>d. d_id d = dealId' \<longrightarrow> deal_row_check d) rows then Inl CheckViolation
         else Inr (s\<lparr>deal_rows := rows\<rparr>, find (\<lambda>d. d_id d = dealId') rows))"

text \<open>\<open>updateUserReputation\<close>: the counts of the \<open>reputation_calc\<close> query, the score, and
  the UPDATE of the user's row. A comparison with NULL is not true, so a missing rating is
  not counted. The quotient is taken exactly (lemma \<open>quotient_scale_irrelevant\<close> shows that
  the finite scale of the store's division does not change the rounded score).\<close>

definition at_least_4 :: "int option \<Rightarrow> bool" where
  "at_least_4 r = (case r of None \<Rightarrow> False | Some x \<Rightarrow> 4 \<le> x)"

definition completed_deals_of :: "db \<Rightarrow> uuid \<Rightarrow> DealRow list" where
  "completed_deals_of s userId =
     filter (\<lambda>d. (d_buyer_id d = userId \<or> d_seller_id d = userId) \<and> d_status d = ''completed'')
       (deal_rows s)"

definition total_completed_deals :: "db \<Rightarrow> uuid \<Rightarrow> nat" where
  "total_completed_deals s userId = length (completed_deals_of s userId)"

definition positive_ratings :: "db \<Rightarrow> uuid \<Rightarrow> nat" where
  "positive_ratings s userId =
     length (filter (\<lambda>d. (d_buyer_id d = userId \<and> at_least_4 (d_seller_rating d)) \<or>
                          (d_seller_id d = userId \<and> at_least_4 (d_buyer_rating d)))
               (completed_deals_of s userId))"

definition reputation_score :: "db \<Rightarrow> uuid \<Rightarrow> int" where
  "reputation_score s userId =
     (if total_completed_deals s userId = 0 then 0
      else round_half_away
             (of_nat (positive_ratings s userId) / of_nat (total_completed_deals s userId) * 100))"

definition updateUserReputation :: "db \<Rightarrow> uuid \<Rightarrow> db \<times> int" where
  "updateUserReputation s userId =
     (let rows = map (\<lambda>u. if u_id u = userId
                           then u\<lparr>u_reputation_score := reputation_score s userId,
                                  u_total_trades := int (total_completed_deals s userId),
                                  u_successful_trades := int (positive_ratings s userId)\<rparr>
                           else u) (users s)
      in (s\<lparr>users := rows\<rparr>,
          case find (\<lambda>u. u_id u = userId) rows of
            None \<Rightarrow> 0
          | Some u \<Rightarrow> u_reputation_score u))"

text \<open>\<open>expireOldDeals\<close>: one UPDATE at the statement's \<open>NOW()\<close>.\<close>

definition expirable :: "timestamp \<Rightarrow> DealRow \<Rightarrow> bool" where
  "expirable now d =
     (d_status d \<in> set [''initiated'', ''funded'', ''payment_sent''] \<and> d_expires_at d < now)"

definition expireOldDeals :: "timestamp \<Rightarrow> db \<Rightarrow> db" where
  "expireOldDeals now s =
     s\<lparr>deal_rows := map (\<lambda>d. if expirable now d then d\<lparr>d_status := ''expired''\<rparr> else d)
                        (deal_rows s)\<rparr>"

definition createNotification :: "db \<Rightarrow> NotificationRow \<Rightarrow> db" where
  "createNotification s n = s\<lparr>notifications := notifications s @ [n]\<rparr>"

section \<open>The route handlers\<close>

text \<open>A handler answers with the JSON of its result or with an error and its HTTP status.
  A property of the request body that is missing, empty or zero takes the same branch of
  every test the handlers make (\<open>!x\<close>, \<open>x || y\<close>, \<open>if (x)\<close>), so a body holds the empty
  string or zero where the property is missing.\<close>

datatype api_error =
    MissingFields
  | AmountNotPositive
  | AdNotFound
  | BuyerNotFound
  | SelfTrade
  | MinimumAmount numeric string
  | MaximumAmount numeric string
  | AvailableAmount numeric string
  | DealNotFound
  | UserNotFound
  | Unauthorized
  | InternalServerError

fun http_status :: "api_error \<Rightarrow> nat" where
  "http_status MissingFields = 400"
| "http_status AmountNotPositive = 400"
| "http_status AdNotFound = 404"
| "http_status BuyerNotFound = 404"
| "http_status SelfTrade = 400"
| "http_status (MinimumAmount _ _) = 400"
| "http_status (MaximumAmount _ _) = 400"
| "http_status (AvailableAmount _ _) = 400"
| "http_status DealNotFound = 404"
| "http_status UserNotFound = 404"
| "http_status Unauthorized = 403"
| "http_status InternalServerError = 500"

type_synonym 'a response = "api_error + 'a"

definition if_given :: "string \<Rightarrow> string option" where
  "if_given x = (if x \<noteq> [] then Some x else None)"

subsection \<open>PUT /api/deals/[id]\<close>

record PutBody =
  put_status :: string
  put_walletAddress :: string
  put_transactionHash :: string
  put_escrowContractAddress :: string
  put_dealIdOnChain :: int
  put_paymentDetails :: string
  put_rating :: int
  put_feedback :: string

definition updateData :: "UserRow \<Rightarrow> DealRow \<Rightarrow> PutBody \<Rightarrow> DealUpdate" where
  "updateData user currentDeal body =
     (let rated = (put_rating body \<noteq> 0 \<and> put_feedback body \<noteq> []);
          by_buyer = (u_id user = d_buyer_id currentDeal)
      in \<lparr>upd_transaction_hash = if_given (put_transactionHash body),
           upd_escrow_contract_address = if_given (put_escrowContractAddress body),
           upd_deal_id_on_chain =
             (if put_dealIdOnChain body \<noteq> 0 then Some (put_dealIdOnChain body) else None),
           upd_payment_details = if_given (put_paymentDetails body),
           upd_seller_rating = (if rated \<and> by_buyer then Some (put_rating body) else None),
           upd_seller_feedback = (if rated \<and> by_buyer then Some (put_feedback body) else None),
           upd_buyer_rating = (if rated \<and> \<not> by_buyer then Some (put_rating body) else None),
           upd_buyer_feedback = (if rated \<and> \<not> by_buyer then Some (put_feedback body) else None)\<rparr>)"

definition notificationMessage :: "string \<Rightarrow> string" where
  "notificationMessage st =
     (if st = ''funded'' then ''Deal has been funded with escrow contract''
      else if st = ''payment_sent'' then ''Payment has been sent. Please confirm receipt.''
      else if st = ''completed'' then ''Deal completed successfully!''
      else if st = ''disputed'' then ''Deal has been disputed. Arbitrator will review.''
      else if st = ''cancelled'' then ''Deal has been cancelled''
      else [])"

definition PUT :: "timestamp \<Rightarrow> db \<Rightarrow> uuid \<Rightarrow> PutBody \<Rightarrow> db \<times> DealRow option response" where
  "PUT now s params_id body =
     (if put_walletAddress body = [] \<or> put_status body = [] then (s, Inl MissingFields)
      else
       (case getDealById s params_id of
        None \<Rightarrow> (s, Inl DealNotFound)
      | Some currentDeal \<Rightarrow>
         (case getUserByWallet s (put_walletAddress body) of
            None \<Rightarrow> (s, Inl UserNotFound)
          | Some user \<Rightarrow>
              if u_id user \<noteq> d_buyer_id currentDeal \<and> u_id user \<noteq> d_seller_id currentDeal
              then (s, Inl Unauthorized)
              else
                (case updateDealStatus now s params_id (put_status body)
                        (updateData user currentDeal body) of
                   Inl _ \<Rightarrow> (s, Inl InternalServerError)
                 | Inr (s1, updatedDeal) \<Rightarrow>
                     let otherUserId =
                           (if u_id user = d_buyer_id currentDeal then d_seller_id currentDeal
                            else d_buyer_id currentDeal);
                         s2 = (if put_status body = ''completed''
                               then fst (updateUserReputation
                                      (fst (updateUserReputation s1 (d_buyer_id currentDeal)))
                                      (d_seller_id currentDeal))
                               else s1);
                         s3 = (if notificationMessage (put_status body) \<noteq> []
                               then createNotification s2
                                      \<lparr>n_user_id = otherUserId, n_title = ''Deal Update'',
                                       n_message = [Txt (notificationMessage (put_status body))],
                                       n_type = ''deal'', n_related_id = if_given params_id,
                                       n_is_read = False\<rparr>
                               else s2)
                     in (s3, Inr updatedDeal)))))"

text \<open>Every statement the handler awaits is a transaction of its own; the handler opens
  none around them. \<open>PUT_commits\<close> lists the stores a request commits one after the other:
  the status write, then for the status completed the two reputation statements (which
  \<open>Promise.all\<close> issues together; the buyer's is listed first), then the notification. A
  request that is answered with an error commits nothing.\<close>

definition PUT_commits :: "timestamp \<Rightarrow> db \<Rightarrow> uuid \<Rightarrow> PutBody \<Rightarrow> db list" where
  "PUT_commits now s params_id body =
     (if put_walletAddress body = [] \<or> put_status body = [] then []
      else
       (case getDealById s params_id of
        None \<Rightarrow> []
      | Some currentDeal \<Rightarrow>
         (case getUserByWallet s (put_walletAddress body) of
            None \<Rightarrow> []
          | Some user \<Rightarrow>
              if u_id user \<noteq> d_buyer_id currentDeal \<and> u_id user \<noteq> d_seller_id currentDeal
              then []
              else
                (case updateDealStatus now s params_id (put_status body)
                        (updateData user currentDeal body) of
                   Inl _ \<Rightarrow> []
                 | Inr (s1, updatedDeal) \<Rightarrow>
                     let otherUserId =
                           (if u_id user = d_buyer_id currentDeal then d_seller_id currentDeal
                            else d_buyer_id currentDeal);
                         s2a = fst (updateUserReputation s1 (d_buyer_id currentDeal));
                         s2b = fst (updateUserReputation s2a (d_seller_id currentDeal));
                         s2 = (if put_status body = ''completed'' then s2b else s1);
                         s3 = createNotification s2
                                \<lparr>n_user_id = otherUserId, n_title = ''Deal Update'',
                                 n_message = [Txt (notificationMessage (put_status body))],
                                 n_type = ''deal'', n_related_id = if_given params_id,
                                 n_is_read = False\<rparr>
                     in [s1] @
                        (if put_status body = ''completed'' then [s2a, s2b] else []) @
                        (if notificationMessage (put_status body) \<noteq> [] then [s3] else [])))))"

subsection \<open>POST /api/deals\<close>

record PostBody =
  post_adId :: string
  post_buyerWallet :: string
  post_amount :: numeric
  post_paymentMethod :: string
  post_upiId :: string

text \<open>The tests \<open>ad.min_amount && amount < ad.min_amount\<close> and
  \<open>ad.max_amount && amount > ad.max_amount\<close>: a bound that is \<open>null\<close> or \<open>0\<close> is not
  tested. The result is the violated bound.\<close>

definition below_minimum :: "AdRow \<Rightarrow> numeric \<Rightarrow> numeric option" where
  "below_minimum ad a =
     (case a_min_amount ad of
        None \<Rightarrow> None
      | Some m \<Rightarrow> if m \<noteq> 0 \<and> a < m then Some m else None)"

definition above_maximum :: "AdRow \<Rightarrow> numeric \<Rightarrow> numeric option" where
  "above_maximum ad a =
     (case a_max_amount ad of
        None \<Rightarrow> None
      | Some m \<Rightarrow> if m \<noteq> 0 \<and> a > m then Some m else None)"

definition dealData :: "AdRow \<Rightarrow> UserRow \<Rightarrow> PostBody \<Rightarrow> DealData" where
  "dealData ad buyer' body =
     (let buyerId = (if a_type ad = ''sell'' then u_id buyer' else a_user_id ad);
          sellerId = (if a_type ad = ''sell'' then a_user_id ad else u_id buyer')
      in \<lparr>new_ad_id = post_adId body, new_buyer_id = buyerId, new_seller_id = sellerId,
           new_amount = post_amount body, new_price = a_price ad,
           new_total_inr = post_amount body * a_price ad,
           new_payment_method =
             (if post_paymentMethod body \<noteq> [] then post_paymentMethod body
              else a_payment_method ad),
           new_upi_id = (if post_upiId body \<noteq> [] then Some (post_upiId body) else a_upi_id ad),
           new_payment_details = None\<rparr>)"

definition POST :: "timestamp \<Rightarrow> uuid \<Rightarrow> db \<Rightarrow> PostBody \<Rightarrow> db \<times> DealRow response" where
  "POST now fresh s body =
     (if post_adId body = [] \<or> post_buyerWallet body = [] \<or> post_amount body = 0
      then (s, Inl MissingFields)
      else if post_amount body \<le> 0 then (s, Inl AmountNotPositive)
      else
       (case getAdById s (post_adId body) of
        None \<Rightarrow> (s, Inl AdNotFound)
      | Some ad \<Rightarrow>
         (case getUserByWallet s (post_buyerWallet body) of
            None \<Rightarrow> (s, Inl BuyerNotFound)
          | Some buyer' \<Rightarrow>
              if a_user_id ad = u_id buyer' then (s, Inl SelfTrade)
              else
              (case below_minimum ad (post_amount body) of
                Some m \<Rightarrow> (s, Inl (MinimumAmount m (a_asset ad)))
              | None \<Rightarrow>
              (case above_maximum ad (post_amount body) of
                Some m \<Rightarrow> (s, Inl (MaximumAmount m (a_asset ad)))
              | None \<Rightarrow>
              if post_amount body > a_amount ad
                then (s, Inl (AvailableAmount (a_amount ad) (a_asset ad)))
              else
                (case createDeal now fresh s (dealData ad buyer' body) of
                   Inl _ \<Rightarrow> (s, Inl InternalServerError)
                 | Inr (s1, deal) \<Rightarrow>
                     let s2 = createNotification s1
                                \<lparr>n_user_id = new_buyer_id (dealData ad buyer' body),
                                 n_title = ''Deal Created'',
                                 n_message = [Txt ''Deal created for '', Num (post_amount body),
                                              Txt '' '', Txt (a_asset ad), Txt '' at '', Rupee,
                                              Num (a_price ad)],
                                 n_type = ''deal'', n_related_id = if_given (d_id deal),
                                 n_is_read = False\<rparr>;
                         s3 = createNotification s2
                                \<lparr>n_user_id = new_seller_id (dealData ad buyer' body),
                                 n_title = ''New Deal Request'',
                                 n_message = [Txt ''Someone wants to '',
                                              Txt (if a_type ad = ''sell'' then ''buy'' else ''sell''),
                                              Txt '' '', Num (post_amount body), Txt '' '',
                                              Txt (a_asset ad)],
                                 n_type = ''deal'', n_related_id = if_given (d_id deal),
                                 n_is_read = False\<rparr>
                     in (s3, Inr deal)))))))"

section \<open>The specification's wording, and example data\<close>

text \<open>A store used to instantiate the theorems: three users, two ads of alice (one to sell,
  one to buy), and the given deal rows, each between the buyer bob and the seller alice.\<close>

definition example_user :: "uuid \<Rightarrow> string \<Rightarrow> UserRow" where
  "example_user i w =
     \<lparr>u_id = i, u_wallet_address = w, u_reputation_score = 0, u_total_trades = 0,
      u_successful_trades = 0\<rparr>"

definition example_ad :: "uuid \<Rightarrow> string \<Rightarrow> AdRow" where
  "example_ad i ty =
     \<lparr>a_id = i, a_user_id = ''alice'', a_asset = ''USDT'', a_type = ty, a_amount = 1000,
      a_price = 1681 / 20, a_min_amount = Some (1 / 1000), a_max_amount = Some 500,
      a_payment_method = ''UPI'', a_upi_id = Some ''alice@upi'', a_status = ''active''\<rparr>"

definition example_row :: "uuid \<Rightarrow> string \<Rightarrow> timestamp \<Rightarrow> int option \<Rightarrow> int option \<Rightarrow> DealRow" where
  "example_row i st expires br sr =
     \<lparr>d_id = i, d_ad_id = ''ad-1'', d_buyer_id = ''bob'', d_seller_id = ''alice'',
      d_amount = 2, d_price = 1681 / 20, d_total_inr = 1681 / 10,
      d_escrow_contract_address = None, d_transaction_hash = None, d_deal_id_on_chain = None,
      d_status = st, d_payment_method = ''UPI'', d_payment_details = None,
      d_upi_id = Some ''alice@upi'', d_buyer_rating = br, d_seller_rating = sr,
      d_buyer_feedback = None, d_seller_feedback = None,
      d_created_at = 100, d_updated_at = 100, d_funded_at = None, d_payment_sent_at = None,
      d_completed_at = None, d_expires_at = expires\<rparr>"

definition example_db :: "DealRow list \<Rightarrow> db" where
  "example_db rows =
     \<lparr>users = [example_user ''alice'' ''0xaa'', example_user ''bob'' ''0xbb'',
               example_user ''carol'' ''0xcc''],
      ads = [example_ad ''ad-1'' ''sell'', example_ad ''ad-2'' ''buy''],
      deal_rows = rows, notifications = []\<rparr>"

definition example_post :: "uuid \<Rightarrow> string \<Rightarrow> numeric \<Rightarrow> PostBody" where
  "example_post ad w a =
     \<lparr>post_adId = ad, post_buyerWallet = w, post_amount = a, post_paymentMethod = [],
      post_upiId = []\<rparr>"


text \<open>The reputation score as the specification words it: \<open>completed\<close> counts the
  completed deals in which the user is buyer or seller, \<open>positive\<close> those of them in which
  the counterpart rating is at least 4, and the score is 0 without completed deals and
  \<open>round (positive / completed * 100)\<close> otherwise. The counterpart rating is the rating
  column named after the other party: \<open>seller_rating\<close> where the user is the buyer,
  \<open>buyer_rating\<close> where the user is the seller.\<close>

definition counterpart_ratings_spec :: "uuid \<Rightarrow> DealRow \<Rightarrow> int option list" where
  "counterpart_ratings_spec userId d =
     (if d_buyer_id d = userId then [d_seller_rating d] else []) @
     (if d_seller_id d = userId then [d_buyer_rating d] else [])"

definition completed_spec :: "db \<Rightarrow> uuid \<Rightarrow> DealRow list" where
  "completed_spec s userId =
     filter (\<lambda>d. d_status d = ''completed'' \<and> counterpart_ratings_spec userId d \<noteq> []) (deal_rows s)"

definition positive_spec :: "db \<Rightarrow> uuid \<Rightarrow> DealRow list" where
  "positive_spec s userId =
     filter (\<lambda>d. list_ex at_least_4 (counterpart_ratings_spec userId d)) (completed_spec s userId)"

definition score_spec :: "db \<Rightarrow> uuid \<Rightarrow> int" where
  "score_spec s userId =
     (if length (completed_spec s userId) = 0 then 0
      else round (of_nat (length (positive_spec s userId)) /
                  of_nat (length (completed_spec s userId)) * 100 :: rat))"


definition example_put :: "string \<Rightarrow> string \<Rightarrow> int \<Rightarrow> string \<Rightarrow> PutBody" where
  "example_put st w rating feedback =
     \<lparr>put_status = st, put_walletAddress = w, put_transactionHash = [],
      put_escrowContractAddress = [], put_dealIdOnChain = 0, put_paymentDetails = [],
      put_rating = rating, put_feedback = feedback\<rparr>"

text \<open>A user's row with the reputation columns recomputed from the deals of a store.\<close>

definition recomputed :: "db \<Rightarrow> UserRow \<Rightarrow> UserRow" where
  "recomputed s u =
     u\<lparr>u_reputation_score := reputation_score s (u_id u),
       u_total_trades := int (total_completed_deals s (u_id u)),
       u_successful_trades := int (positive_ratings s (u_id u))\<rparr>"

section \<open>Properties of the escrow contract\<close>

lemma bind_tx_Inr_iff: "bind_tx m f = Inr y \<longleftrightarrow> (\<exists>x. m = Inr x \<and> f x = Inr y)"
  by (cases m) (simp_all add: bind_tx_def)

lemma bind_tx_simps [simp]: "bind_tx (Inr x) f = f x" "bind_tx (Inl e) f = Inl e"
  by (simp_all add: bind_tx_def)

lemma paid_out_simps:
  "paid_out m [] = 0"
  "paid_out m (c # cs) = (if src c = this m then amt c else 0) + paid_out m cs"
  "paid_out m (xs @ ys) = paid_out m xs + paid_out m ys"
  by (simp_all add: paid_out_def)

lemma fee_le_amount: "p \<le> 500 \<Longrightarrow> a * p div 10000 \<le> (a::nat)"
proof -
  assume "p \<le> 500"
  then have "a * p \<le> a * 10000" by simp
  then have "a * p div 10000 \<le> a * 10000 div 10000" by (rule div_le_mono)
  then show ?thesis by simp
qed

text \<open>The example run is a run of the contract.\<close>

lemma example_created:
  "createDeal_escrow (example_msg 11 0) (constructor 100 200) 12 77 1000000 300000
     = Inr (example_escrow Created False, 1)"
  by (simp add: createDeal_escrow_def example_msg_def constructor_def checked_add_def
      MAX_UINT256_def DEAL_TIMEOUT_def example_escrow_def example_deal_def set_deal_def)

lemma example_funded:
  "fundDeal (example_msg 11 0) (example_escrow Created False) 1
     = Inr (example_escrow Funded False, [\<lparr>tok = 77, src = 11, dst = 999, amt = 1000000\<rparr>])"
  by (simp add: fundDeal_def example_msg_def example_escrow_def example_deal_def set_deal_def
      safeTransferFrom_def constructor_def)

lemma example_payment_sent:
  "confirmPaymentSent (example_msg 11 0) (example_escrow Funded False) 1
     = Inr (example_escrow PaymentSent True)"
  by (simp add: confirmPaymentSent_def example_msg_def example_escrow_def example_deal_def
      set_deal_def constructor_def)

lemma example_disputed:
  "initiateDispute (example_msg 11 (10 ^ 15)) (example_escrow Funded False) 1
     = Inr (example_escrow Disputed False)"
  by (simp add: initiateDispute_def example_msg_def example_escrow_def example_deal_def
      set_deal_def constructor_def DISPUTE_FEE_def)

lemma example_fields [simp]:
  "platformFeePercent (example_escrow st bc) = 50"
  "arbitrator (example_escrow st bc) = 100"
  "feeRecipient (example_escrow st bc) = 200"
  "deals (example_escrow st bc) (Suc 0) = example_deal st bc"
  "userReputation (example_escrow st bc) a = 0"
  by (simp_all add: example_escrow_def set_deal_def constructor_def)

lemma example_confirmed:
  "\<exists>s'. confirmPaymentReceived (example_msg 12 0) (example_escrow PaymentSent True) 1 =
     Inr (s', [\<lparr>tok = 77, src = 999, dst = 12, amt = 995000\<rparr>,
               \<lparr>tok = 77, src = 999, dst = 200, amt = 5000\<rparr>])"
  by (simp add: confirmPaymentReceived_def release_to_seller_def safeTransfer_def increment_def
      checked_mul_def checked_sub_def checked_add_def MAX_UINT256_def example_msg_def
      example_deal_def Let_def)

lemma example_resolved_for_seller:
  "\<exists>s'. resolveDispute (example_msg 100 0) (example_escrow Disputed False) 1 False =
     Inr (s', [\<lparr>tok = 77, src = 999, dst = 12, amt = 995000\<rparr>,
               \<lparr>tok = 77, src = 999, dst = 200, amt = 5000\<rparr>])"
  by (simp add: resolveDispute_def release_to_seller_def safeTransfer_def
      checked_mul_def checked_sub_def MAX_UINT256_def example_msg_def
      example_deal_def Let_def)

lemma example_resolved_for_buyer:
  "\<exists>s'. resolveDispute (example_msg 100 0) (example_escrow Disputed False) 1 True =
     Inr (s', [\<lparr>tok = 77, src = 999, dst = 11, amt = 1000000\<rparr>])"
  by (simp add: resolveDispute_def safeTransfer_def example_msg_def example_deal_def Let_def)

lemma release_to_seller_calls:
  assumes "platformFeePercent s \<le> 500" and "release_to_seller m s d = Inr calls"
  shows "calls = seller_release_spec m s d"
  using assms(2) fee_le_amount [OF assms(1), of "amount d"]
  by (auto simp: release_to_seller_def bind_tx_Inr_iff checked_mul_def checked_sub_def
      safeTransfer_def Let_def seller_release_spec_def split: if_splits)

lemma seller_release_paid_out:
  assumes "platformFeePercent s \<le> 500"
  shows "paid_out m (seller_release_spec m s d) = amount d"
  using fee_le_amount [OF assms(1), of "amount d"]
  by (simp add: seller_release_spec_def paid_out_simps Let_def)

lemma confirmPaymentReceived_calls:
  assumes "platformFeePercent s \<le> 500" and "confirmPaymentReceived m s i = Inr (s', calls)"
  shows "calls = seller_release_spec m s (deals s i)"
proof -
  from assms(2) obtain d where d: "release_to_seller m s d = Inr calls"
    and "d = (deals s i)\<lparr>sellerConfirmed := True\<rparr>"
    by (auto simp: confirmPaymentReceived_def Let_def bind_tx_Inr_iff split: if_splits)
  then have "seller_release_spec m s d = seller_release_spec m s (deals s i)"
    by (simp add: seller_release_spec_def Let_def)
  with release_to_seller_calls [OF assms(1) d] show ?thesis by simp
qed

lemma resolveDispute_calls:
  assumes "platformFeePercent s \<le> 500" and "resolveDispute m s i fb = Inr (s', calls)"
  shows "calls = (if fb
           then [\<lparr>tok = token (deals s i), src = this m, dst = buyer (deals s i),
                   amt = amount (deals s i)\<rparr>]
           else seller_release_spec m s (deals s i))"
  using assms(2) release_to_seller_calls [OF assms(1), of m "deals s i" calls]
  by (auto simp: resolveDispute_def Let_def bind_tx_Inr_iff safeTransfer_def split: if_splits)

text \<open>The fee never exceeds 500 basis points: the constructor sets 50, and only
  \<open>updatePlatformFee\<close> writes it.\<close>

lemma constructor_fee: "platformFeePercent (constructor a f) \<le> 500"
  by (simp add: constructor_def)

lemma updatePlatformFee_fee:
  "platformFeePercent s \<le> 500 \<Longrightarrow> updatePlatformFee m s n = Inr s' \<Longrightarrow> platformFeePercent s' \<le> 500"
  by (auto simp: updatePlatformFee_def split: if_splits)

lemma other_functions_keep_fee:
  "createDeal_escrow m s a b c d = Inr (s', k) \<Longrightarrow> platformFeePercent s' = platformFeePercent s"
  "fundDeal m s i = Inr (s', cs) \<Longrightarrow> platformFeePercent s' = platformFeePercent s"
  "confirmPaymentSent m s i = Inr s' \<Longrightarrow> platformFeePercent s' = platformFeePercent s"
  "confirmPaymentReceived m s i = Inr (s', cs) \<Longrightarrow> platformFeePercent s' = platformFeePercent s"
  "initiateDispute m s i = Inr s' \<Longrightarrow> platformFeePercent s' = platformFeePercent s"
  "resolveDispute m s i fb = Inr (s', cs) \<Longrightarrow> platformFeePercent s' = platformFeePercent s"
  "cancelDeal m s i = Inr s' \<Longrightarrow> platformFeePercent s' = platformFeePercent s"
  "emergencyRefund m s i = Inr (s', cs) \<Longrightarrow> platformFeePercent s' = platformFeePercent s"
  by (auto simp: createDeal_escrow_def fundDeal_def confirmPaymentSent_def
      confirmPaymentReceived_def initiateDispute_def resolveDispute_def cancelDeal_def
      emergencyRefund_def set_deal_def Let_def bind_tx_Inr_iff split: if_splits)

text \<open>The amount of a deal is written once, by \<open>createDeal\<close>, under a fresh id; what
  \<open>fundDeal\<close> takes in is what a settlement pays out.\<close>

lemma deal_amount_fixed:
  "createDeal_escrow m s a b c d = Inr (s', k) \<Longrightarrow> j \<noteq> nextDealId s \<Longrightarrow>
     amount (deals s' j) = amount (deals s j)"
  "fundDeal m s i = Inr (s', cs) \<Longrightarrow> amount (deals s' j) = amount (deals s j)"
  "confirmPaymentSent m s i = Inr s' \<Longrightarrow> amount (deals s' j) = amount (deals s j)"
  "confirmPaymentReceived m s i = Inr (s', cs) \<Longrightarrow> amount (deals s' j) = amount (deals s j)"
  "initiateDispute m s i = Inr s' \<Longrightarrow> amount (deals s' j) = amount (deals s j)"
  "resolveDispute m s i fb = Inr (s', cs) \<Longrightarrow> amount (deals s' j) = amount (deals s j)"
  "cancelDeal m s i = Inr s' \<Longrightarrow> amount (deals s' j) = amount (deals s j)"
  "emergencyRefund m s i = Inr (s', cs) \<Longrightarrow> amount (deals s' j) = amount (deals s j)"
  "updatePlatformFee m s n = Inr s' \<Longrightarrow> amount (deals s' j) = amount (deals s j)"
  by (auto simp: createDeal_escrow_def fundDeal_def confirmPaymentSent_def
      confirmPaymentReceived_def initiateDispute_def resolveDispute_def cancelDeal_def
      emergencyRefund_def updatePlatformFee_def set_deal_def Let_def bind_tx_Inr_iff
      split: if_splits)

lemma fundDeal_deposit:
  "fundDeal m s i = Inr (s', cs) \<Longrightarrow>
     cs = [\<lparr>tok = token (deals s i), src = msg_sender m, dst = this m, amt = amount (deals s i)\<rparr>]"
  by (auto simp: fundDeal_def safeTransferFrom_def Let_def bind_tx_Inr_iff split: if_splits)

lemma emergencyRefund_calls:
  "emergencyRefund m s i = Inr (s', cs) \<Longrightarrow>
     cs = [\<lparr>tok = token (deals s i), src = this m, dst = buyer (deals s i), amt = amount (deals s i)\<rparr>]"
  by (auto simp: emergencyRefund_def safeTransfer_def Let_def bind_tx_Inr_iff split: if_splits)

text \<open>When a settlement goes through.\<close>

lemma release_to_seller_succeeds:
  assumes "platformFeePercent s \<le> 500" and "amount d * platformFeePercent s \<le> MAX_UINT256"
    and "\<forall>c. token_ok m c"
  shows "release_to_seller m s d = Inr (seller_release_spec m s d)"
  using assms(2,3) fee_le_amount [OF assms(1), of "amount d"]
  by (simp add: release_to_seller_def checked_mul_def checked_sub_def safeTransfer_def
      seller_release_spec_def Let_def)

text \<open>
  Claim C9. In every settlement of the escrow contract that goes through (the seller
  confirms the payment, or the arbitrator resolves a dispute for either party) and for every
  platform fee of at most 500 basis points, the token calls are those the specification
  names: the seller receives the amount minus the fee \<open>amount * platformFeePercent div 10000\<close>
  and the fee recipient the fee, unless it is zero; or the buyer receives the whole amount.
  The amounts that leave the contract add up to the deal's amount.
\<close>

theorem settlement_pays_out_deposit:
  assumes "platformFeePercent s \<le> 500"
  shows "(confirmPaymentReceived m s i = Inr (s1, calls1) \<longrightarrow>
            calls1 = seller_release_spec m s (deals s i) \<and> paid_out m calls1 = amount (deals s i))
       \<and> (resolveDispute m s i False = Inr (s2, calls2) \<longrightarrow>
            calls2 = seller_release_spec m s (deals s i) \<and> paid_out m calls2 = amount (deals s i))
       \<and> (resolveDispute m s i True = Inr (s3, calls3) \<longrightarrow>
            calls3 = [\<lparr>tok = token (deals s i), src = this m, dst = buyer (deals s i),
                       amt = amount (deals s i)\<rparr>]
            \<and> paid_out m calls3 = amount (deals s i))"
  using confirmPaymentReceived_calls [OF assms, of m i s1 calls1]
    resolveDispute_calls [OF assms, of m i False s2 calls2]
    resolveDispute_calls [OF assms, of m i True s3 calls3]
    seller_release_paid_out [OF assms, of m "deals s i"]
  by (auto simp: paid_out_simps)

theorem settlement_pays_out_deposit_witness:
  "platformFeePercent (example_escrow PaymentSent True) \<le> 500 \<and>
   (\<exists>s1 s2 s3.
     confirmPaymentReceived (example_msg 12 0) (example_escrow PaymentSent True) 1 =
       Inr (s1, [\<lparr>tok = 77, src = 999, dst = 12, amt = 995000\<rparr>,
                 \<lparr>tok = 77, src = 999, dst = 200, amt = 5000\<rparr>]) \<and>
     resolveDispute (example_msg 100 0) (example_escrow Disputed False) 1 False =
       Inr (s2, [\<lparr>tok = 77, src = 999, dst = 12, amt = 995000\<rparr>,
                 \<lparr>tok = 77, src = 999, dst = 200, amt = 5000\<rparr>]) \<and>
     resolveDispute (example_msg 100 0) (example_escrow Disputed False) 1 True =
       Inr (s3, [\<lparr>tok = 77, src = 999, dst = 11, amt = 1000000\<rparr>])) \<and>
   paid_out (example_msg 12 0)
     [\<lparr>tok = 77, src = 999, dst = 12, amt = 995000\<rparr>,
      \<lparr>tok = 77, src = 999, dst = 200, amt = 5000\<rparr>] = amount (example_deal PaymentSent True) \<and>
   paid_out (example_msg 100 0) [\<lparr>tok = 77, src = 999, dst = 11, amt = 1000000\<rparr>]
     = amount (example_deal Disputed False)"
proof -
  obtain s1 where 1: "confirmPaymentReceived (example_msg 12 0) (example_escrow PaymentSent True) 1 =
       Inr (s1, [\<lparr>tok = 77, src = 999, dst = 12, amt = 995000\<rparr>,
                 \<lparr>tok = 77, src = 999, dst = 200, amt = 5000\<rparr>])"
    using example_confirmed by blast
  obtain s2 where 2: "resolveDispute (example_msg 100 0) (example_escrow Disputed False) 1 False =
       Inr (s2, [\<lparr>tok = 77, src = 999, dst = 12, amt = 995000\<rparr>,
                 \<lparr>tok = 77, src = 999, dst = 200, amt = 5000\<rparr>])"
    using example_resolved_for_seller by blast
  obtain s3 where 3: "resolveDispute (example_msg 100 0) (example_escrow Disputed False) 1 True =
       Inr (s3, [\<lparr>tok = 77, src = 999, dst = 11, amt = 1000000\<rparr>])"
    using example_resolved_for_buyer by blast
  have fee: "platformFeePercent (example_escrow PaymentSent True) \<le> 500"
    "platformFeePercent (example_escrow Disputed False) \<le> 500"
    by simp_all
  from settlement_pays_out_deposit [OF fee(1), of "example_msg 12 0" 1 s1 _ s1 "[]" s1 "[]"] 1
  have a: "paid_out (example_msg 12 0)
     [\<lparr>tok = 77, src = 999, dst = 12, amt = 995000\<rparr>,
      \<lparr>tok = 77, src = 999, dst = 200, amt = 5000\<rparr>] = amount (example_deal PaymentSent True)"
    by simp
  from settlement_pays_out_deposit [OF fee(2), of "example_msg 100 0" 1 s3 "[]" s3 "[]" s3] 3
  have b: "paid_out (example_msg 100 0) [\<lparr>tok = 77, src = 999, dst = 11, amt = 1000000\<rparr>]
     = amount (example_deal Disputed False)"
    by simp
  from 1 2 3 fee a b show ?thesis by blast
qed



section \<open>Properties of the store and the routes\<close>

subsection \<open>The expiry sweep\<close>

lemma expirable_expired [simp]: "\<not> expirable now (d\<lparr>d_status := ''expired''\<rparr>)"
  by (simp add: expirable_def)

lemma expireOldDeals_idem: "expireOldDeals now (expireOldDeals now s) = expireOldDeals now s"
  by (simp add: expireOldDeals_def comp_def)

lemma expireOldDeals_later:
  "expireOldDeals now' (expireOldDeals now s) = expireOldDeals now' s" if "now \<le> now'"
proof -
  have "\<And>d. expirable now d \<Longrightarrow> expirable now' d"
    using that by (auto simp: expirable_def)
  then show ?thesis
    by (auto simp: expireOldDeals_def comp_def)
qed

text \<open>
  Claim C8. The expiry sweep leaves the users, the ads and the notifications alone and keeps
  every deal row in its place. A row whose status is initiated, funded or payment_sent and
  whose \<open>expires_at\<close> lies before the sweep's time gets the status expired and no other
  change; every other row, in particular a completed, cancelled or expired one and one that
  has not run out, is unchanged. A second sweep at the same time changes nothing.
\<close>

theorem expireOldDeals_frame:
  "users (expireOldDeals now s) = users s \<and> ads (expireOldDeals now s) = ads s \<and>
   notifications (expireOldDeals now s) = notifications s \<and>
   length (deal_rows (expireOldDeals now s)) = length (deal_rows s) \<and>
   (\<forall>i < length (deal_rows s).
      deal_rows (expireOldDeals now s) ! i =
        (if d_status (deal_rows s ! i) \<in> {''initiated'', ''funded'', ''payment_sent''} \<and>
            d_expires_at (deal_rows s ! i) < now
         then (deal_rows s ! i)\<lparr>d_status := ''expired''\<rparr>
         else deal_rows s ! i)) \<and>
   (\<forall>i < length (deal_rows s).
      d_status (deal_rows s ! i) \<in> {''completed'', ''cancelled'', ''expired''} \<or>
      now \<le> d_expires_at (deal_rows s ! i) \<longrightarrow>
      deal_rows (expireOldDeals now s) ! i = deal_rows s ! i) \<and>
   expireOldDeals now (expireOldDeals now s) = expireOldDeals now s"
  by (simp add: expireOldDeals_idem) (auto simp: expireOldDeals_def expirable_def)

lemma example_db_sel [simp]:
  "users (example_db rows) = [example_user ''alice'' ''0xaa'', example_user ''bob'' ''0xbb'',
               example_user ''carol'' ''0xcc'']"
  "ads (example_db rows) = [example_ad ''ad-1'' ''sell'', example_ad ''ad-2'' ''buy'']"
  "deal_rows (example_db rows) = rows"
  "notifications (example_db rows) = []"
  "(example_db rows)\<lparr>deal_rows := rows'\<rparr> = example_db rows'"
  by (simp_all add: example_db_def)

theorem expireOldDeals_frame_witness:
  "deal_rows (expireOldDeals 500
      (example_db [example_row ''d1'' ''funded'' 400 None None,
                   example_row ''d2'' ''funded'' 600 None None,
                   example_row ''d3'' ''completed'' 400 None None,
                   example_row ''d4'' ''disputed'' 400 None None])) =
     [example_row ''d1'' ''expired'' 400 None None,
      example_row ''d2'' ''funded'' 600 None None,
      example_row ''d3'' ''completed'' 400 None None,
      example_row ''d4'' ''disputed'' 400 None None]"
proof -
  let ?s = "example_db [example_row ''d1'' ''funded'' 400 None None,
                   example_row ''d2'' ''funded'' 600 None None,
                   example_row ''d3'' ''completed'' 400 None None,
                   example_row ''d4'' ''disputed'' 400 None None]"
  have len: "length (deal_rows ?s) = 4"
    by simp
  from expireOldDeals_frame [of 500 ?s]
  have n: "length (deal_rows (expireOldDeals 500 ?s)) = 4"
    and r: "\<forall>i < 4. deal_rows (expireOldDeals 500 ?s) ! i =
        (if d_status (deal_rows ?s ! i) \<in> {''initiated'', ''funded'', ''payment_sent''} \<and>
            d_expires_at (deal_rows ?s ! i) < 500
         then (deal_rows ?s ! i)\<lparr>d_status := ''expired''\<rparr>
         else deal_rows ?s ! i)"
    unfolding len by blast+
  have "deal_rows (expireOldDeals 500 ?s) ! 0 = example_row ''d1'' ''expired'' 400 None None"
    "deal_rows (expireOldDeals 500 ?s) ! 1 = example_row ''d2'' ''funded'' 600 None None"
    "deal_rows (expireOldDeals 500 ?s) ! 2 = example_row ''d3'' ''completed'' 400 None None"
    "deal_rows (expireOldDeals 500 ?s) ! 3 = example_row ''d4'' ''disputed'' 400 None None"
    using r by (simp_all add: example_row_def)
  with n show ?thesis
    by (simp add: list_eq_iff_nth_eq less_Suc_eq numeral_nat)
qed

subsection \<open>Deal creation\<close>

lemma floor_rat_divide_numeral [simp]:
  "\<lfloor>(numeral a :: rat) / numeral b\<rfloor> = numeral a div numeral b"
  using floor_divide_of_int_eq [of "numeral a" "numeral b", where ?'a = rat] by simp

lemma example_lower_case: "toLowerCase ''0xBB'' = ''0xbb''"
  by (simp add: toLowerCase_def lower_char_def)

lemma example_wallet_bob: "getUserByWallet (example_db rows) ''0xBB'' = Some (example_user ''bob'' ''0xbb'')"
  by (simp add: getUserByWallet_def example_lower_case example_user_def)

lemma example_ad_sell: "getAdById (example_db rows) ''ad-1'' = Some (example_ad ''ad-1'' ''sell'')"
  by (simp add: getAdById_def user_exists_def example_user_def example_ad_def)

lemma example_total_stored: "store_decimal 12 2 (1681 / 20000) = Some (2 / 25)"
  by (simp add: store_decimal_def pg_round_def round_half_away_def)

lemma example_amount_stored: "store_decimal 18 8 (1 / 1000) = Some (1 / 1000)"
  by (simp add: store_decimal_def pg_round_def round_half_away_def)

lemma example_price_stored: "store_decimal 12 2 (1681 / 20) = Some (1681 / 20)"
  by (simp add: store_decimal_def pg_round_def round_half_away_def)

lemma createDeal_Inr:
  assumes "createDeal now fresh s dd = Inr (s1, row)"
  shows "d_id row = fresh" and "d_ad_id row = new_ad_id dd"
    and "d_buyer_id row = new_buyer_id dd" and "d_seller_id row = new_seller_id dd"
    and "d_amount row = pg_round 8 (new_amount dd)"
    and "d_price row = pg_round 2 (new_price dd)"
    and "d_total_inr row = pg_round 2 (new_total_inr dd)"
    and "d_status row = ''initiated''"
    and "s1 = s\<lparr>deal_rows := deal_rows s @ [row]\<rparr>"
    and "deal_row_check row" and "getDealById s fresh = None"
  using assms
  by (auto simp: createDeal_def store_decimal_def Let_def
      split: option.splits if_splits)

lemma POST_Inr:
  assumes "POST now fresh s body = (s', Inr deal)"
  obtains ad buyer' s1 where
    "post_adId body \<noteq> []" "post_buyerWallet body \<noteq> []" "0 < post_amount body"
    "getAdById s (post_adId body) = Some ad"
    "getUserByWallet s (post_buyerWallet body) = Some buyer'"
    "a_user_id ad \<noteq> u_id buyer'"
    "below_minimum ad (post_amount body) = None"
    "above_maximum ad (post_amount body) = None"
    "post_amount body \<le> a_amount ad"
    "createDeal now fresh s (dealData ad buyer' body) = Inr (s1, deal)"
    "deal_rows s' = deal_rows s1" "users s' = users s1" "ads s' = ads s1"
  using assms
  by (auto simp: POST_def Let_def createNotification_def
      split: if_splits option.splits sum.splits)

lemma POST_Inl:
  assumes "POST now fresh s body = (s', Inl e)"
  shows "s' = s"
  using assms
  by (auto simp: POST_def Let_def split: if_splits option.splits sum.splits)

lemma dealData_parties:
  "a_user_id ad \<noteq> u_id u \<Longrightarrow> new_buyer_id (dealData ad u body) \<noteq> new_seller_id (dealData ad u body)"
  by (auto simp: dealData_def Let_def)

lemma POST_self_trade:
  assumes "getAdById s (post_adId body) = Some ad"
    and "getUserByWallet s (post_buyerWallet body) = Some u"
    and "a_user_id ad = u_id u"
  shows "\<exists>e. POST now fresh s body = (s, Inl e) \<and> http_status e = 400"
  using assms by (simp add: POST_def)

lemma createDeal_escrow_parties:
  assumes "createDeal_escrow m c seller' token' amount' inr' = Inr (c', i)"
  shows "buyer (deals c' i) \<noteq> seller (deals c' i)"
  using assms
  by (auto simp: createDeal_escrow_def bind_tx_Inr_iff set_deal_def Let_def split: if_splits)

text \<open>
  Claim C6. A deal that \<open>POST /api/deals\<close> creates has a buyer other than its seller, and
  a request by the owner of the ad is answered with an error of status 400 and leaves the
  store as it was. The contract's \<open>createDeal\<close> does the same on chain: a created deal has
  two different parties, and a call that names the caller as seller reverts.
\<close>

theorem created_deal_parties_differ:
  "(POST now fresh s body = (s', Inr deal) \<longrightarrow> d_buyer_id deal \<noteq> d_seller_id deal) \<and>
   (getAdById s (post_adId body) = Some ad \<and>
    getUserByWallet s (post_buyerWallet body) = Some u \<and> a_user_id ad = u_id u \<longrightarrow>
      (\<exists>e. POST now fresh s body = (s, Inl e) \<and> http_status e = 400)) \<and>
   (createDeal_escrow m c seller' token' amount' inr' = Inr (c', i) \<longrightarrow>
      buyer (deals c' i) \<noteq> seller (deals c' i)) \<and>
   (seller' = msg_sender m \<longrightarrow>
      createDeal_escrow m c seller' token' amount' inr' = Inl (Require ''Cannot trade with yourself''))"
proof (intro conjI impI)
  assume "POST now fresh s body = (s', Inr deal)"
  then obtain ad' b s1 where *: "a_user_id ad' \<noteq> u_id b"
    "createDeal now fresh s (dealData ad' b body) = Inr (s1, deal)"
    by (rule POST_Inr)
  from createDeal_Inr(3,4) [OF *(2)] dealData_parties [OF *(1)]
  show "d_buyer_id deal \<noteq> d_seller_id deal" by simp
next
  assume "getAdById s (post_adId body) = Some ad \<and>
    getUserByWallet s (post_buyerWallet body) = Some u \<and> a_user_id ad = u_id u"
  then show "\<exists>e. POST now fresh s body = (s, Inl e) \<and> http_status e = 400"
    using POST_self_trade by blast
next
  assume "createDeal_escrow m c seller' token' amount' inr' = Inr (c', i)"
  then show "buyer (deals c' i) \<noteq> seller (deals c' i)"
    by (rule createDeal_escrow_parties)
next
  assume "seller' = msg_sender m"
  then show "createDeal_escrow m c seller' token' amount' inr' = Inl (Require ''Cannot trade with yourself'')"
    by (simp add: createDeal_escrow_def)
qed






lemma example_wallet_alice: "getUserByWallet (example_db rows) ''0xAA'' = Some (example_user ''alice'' ''0xaa'')"
  by (simp add: getUserByWallet_def toLowerCase_def lower_char_def example_user_def)


lemma example_POST_sell:
  "snd (POST 1000 ''d9'' (example_db []) (example_post ''ad-1'' ''0xBB'' (1 / 1000)))
   = Inr ((example_row ''d9'' ''initiated'' 87400 None None)
        \<lparr>d_amount := 1 / 1000, d_total_inr := 2 / 25, d_created_at := 1000, d_updated_at := 1000\<rparr>)"
  by (simp add: POST_def example_post_def example_wallet_bob example_ad_sell example_ad_def example_user_def
      below_minimum_def above_maximum_def dealData_def createDeal_def example_total_stored example_amount_stored example_price_stored
      deal_row_check_def rating_check_def deal_statuses_def getDealById_def
      ad_exists_def user_exists_def or_null_def example_row_def Let_def)


lemma example_POST_self:
  "POST 1000 ''d9'' (example_db []) (example_post ''ad-1'' ''0xAA'' (1 / 1000))
   = (example_db [], Inl SelfTrade)"
  by (simp add: POST_def example_post_def example_wallet_alice example_ad_sell example_ad_def example_user_def)


theorem created_deal_parties_differ_witness:
  "(\<exists>s' deal. POST 1000 ''d9'' (example_db []) (example_post ''ad-1'' ''0xBB'' (1 / 1000))
       = (s', Inr deal) \<and> d_buyer_id deal = ''bob'' \<and> d_seller_id deal = ''alice'' \<and>
       d_buyer_id deal \<noteq> d_seller_id deal) \<and>
   getAdById (example_db []) (post_adId (example_post ''ad-1'' ''0xAA'' (1 / 1000)))
     = Some (example_ad ''ad-1'' ''sell'') \<and>
   getUserByWallet (example_db []) (post_buyerWallet (example_post ''ad-1'' ''0xAA'' (1 / 1000)))
     = Some (example_user ''alice'' ''0xaa'') \<and>
   a_user_id (example_ad ''ad-1'' ''sell'') = u_id (example_user ''alice'' ''0xaa'') \<and>
   POST 1000 ''d9'' (example_db []) (example_post ''ad-1'' ''0xAA'' (1 / 1000))
     = (example_db [], Inl SelfTrade) \<and>
   (\<exists>c'. createDeal_escrow (example_msg 11 0) (constructor 100 200) 12 77 1000000 300000
       = Inr (c', 1) \<and> buyer (deals c' 1) \<noteq> seller (deals c' 1)) \<and>
   createDeal_escrow (example_msg 11 0) (constructor 100 200) 11 77 1000000 300000
     = Inl (Require ''Cannot trade with yourself'')"
proof -
  let ?b = "example_post ''ad-1'' ''0xBB'' (1 / 1000)"
  let ?row = "(example_row ''d9'' ''initiated'' 87400 None None)
        \<lparr>d_amount := 1 / 1000, d_total_inr := 2 / 25, d_created_at := 1000, d_updated_at := 1000\<rparr>"
  have p: "POST 1000 ''d9'' (example_db []) ?b = (fst (POST 1000 ''d9'' (example_db []) ?b), Inr ?row)"
    using example_POST_sell by (simp add: prod_eq_iff)
  have h: "getAdById (example_db []) (post_adId (example_post ''ad-1'' ''0xAA'' (1 / 1000)))
     = Some (example_ad ''ad-1'' ''sell'')"
    "getUserByWallet (example_db []) (post_buyerWallet (example_post ''ad-1'' ''0xAA'' (1 / 1000)))
     = Some (example_user ''alice'' ''0xaa'')"
    "a_user_id (example_ad ''ad-1'' ''sell'') = u_id (example_user ''alice'' ''0xaa'')"
    by (simp_all add: example_post_def example_ad_sell example_wallet_alice example_ad_def example_user_def)
  have c: "createDeal_escrow (example_msg 11 0) (constructor 100 200) 12 77 1000000 300000
     = Inr (example_escrow Created False, 1)"
    by (rule example_created)
  have m: "11 = msg_sender (example_msg 11 0)"
    by (simp add: example_msg_def)
  note T = created_deal_parties_differ [of 1000 "''d9''" "example_db []" ?b
      "fst (POST 1000 ''d9'' (example_db []) ?b)" ?row
      "example_ad ''ad-1'' ''sell''" "example_user ''alice'' ''0xaa''"
      "example_msg 11 0" "constructor 100 200" 12 77 1000000 300000 "example_escrow Created False" 1]
  from T p have 1: "d_buyer_id ?row \<noteq> d_seller_id ?row" by blast
  from T c have 2: "buyer (deals (example_escrow Created False) 1)
      \<noteq> seller (deals (example_escrow Created False) 1)" by blast
  from created_deal_parties_differ [of _ _ _ _ _ _ _ _ "example_msg 11 0" "constructor 100 200" 11 77
      1000000 300000] m
  have 3: "createDeal_escrow (example_msg 11 0) (constructor 100 200) 11 77 1000000 300000
     = Inl (Require ''Cannot trade with yourself'')" by blast
  have r: "d_buyer_id ?row = ''bob''" "d_seller_id ?row = ''alice''"
    by (simp_all add: example_row_def)
  from p 1 r have A: "\<exists>s' deal. POST 1000 ''d9'' (example_db []) ?b
       = (s', Inr deal) \<and> d_buyer_id deal = ''bob'' \<and> d_seller_id deal = ''alice'' \<and>
       d_buyer_id deal \<noteq> d_seller_id deal" by blast
  from c 2 have B: "\<exists>c'. createDeal_escrow (example_msg 11 0) (constructor 100 200) 12 77 1000000 300000
       = Inr (c', 1) \<and> buyer (deals c' 1) \<noteq> seller (deals c' 1)" by blast
  from A B h 3 example_POST_self show ?thesis by blast
qed




subsection \<open>Reputation\<close>

lemma half_floor_bounds:
  fixes a b n :: int
  assumes "0 < b" and "n = \<lfloor>(of_int a / of_int b :: rat) + 1 / 2\<rfloor>"
  shows "2 * b * n \<le> 2 * a + b" and "2 * a + b < 2 * b * (n + 1)"
proof -
  have b: "(0::rat) < of_int b" using assms(1) by simp
  have "of_int n \<le> (of_int a / of_int b :: rat) + 1 / 2"
    unfolding assms(2) by (rule of_int_floor_le)
  then have "(of_int (2 * b * n) :: rat) \<le> of_int (2 * a + b)"
    using b by (simp add: field_simps)
  then show "2 * b * n \<le> 2 * a + b" by (simp only: of_int_le_iff)
  have "(of_int a / of_int b :: rat) + 1 / 2 < of_int n + 1"
    unfolding assms(2) by linarith
  then have "(of_int (2 * a + b) :: rat) < of_int (2 * b * (n + 1))"
    using b by (simp add: field_simps)
  then show "2 * a + b < 2 * b * (n + 1)" by (simp only: of_int_less_iff)
qed

lemma half_floor_unique:
  fixes a b k :: int
  assumes "0 < b" and "2 * b * k \<le> 2 * a + b" and "2 * a + b < 2 * b * (k + 1)"
  shows "\<lfloor>(of_int a / of_int b :: rat) + 1 / 2\<rfloor> = k"
proof (rule floor_unique)
  have b: "(0::rat) < of_int b" using assms(1) by simp
  from assms(2) have "(of_int (2 * b * k) :: rat) \<le> of_int (2 * a + b)"
    by (simp only: of_int_le_iff)
  then show "of_int k \<le> (of_int a / of_int b :: rat) + 1 / 2"
    using b by (simp add: field_simps)
  from assms(3) have "(of_int (2 * a + b) :: rat) < of_int (2 * b * (k + 1))"
    by (simp only: of_int_less_iff)
  then show "(of_int a / of_int b :: rat) + 1 / 2 < of_int k + 1"
    using b by (simp add: field_simps)
qed

text \<open>In integers: with \<open>n\<close> the quotient \<open>P / C\<close> rounded at the scale \<open>Ti\<close> and \<open>k\<close> the
  rounded percentage of the exact quotient, \<open>k\<close> is also the rounded percentage of \<open>n / Ti\<close>.\<close>

lemma rounded_quotient_core:
  fixes P C Ti n k :: int
  assumes C: "0 < C" and P: "0 \<le> P" and T: "100 * C < Ti" and T200: "Ti = 200 * T'"
    and n1: "2 * C * n \<le> 2 * (P * Ti) + C" and n2: "2 * (P * Ti) + C < 2 * C * (n + 1)"
    and k1: "2 * C * k \<le> 2 * (100 * P) + C" and k2: "2 * (100 * P) + C < 2 * C * (k + 1)"
  shows "2 * Ti * k \<le> 2 * (100 * n) + Ti" and "2 * (100 * n) + Ti < 2 * Ti * (k + 1)"
proof -
  have Tpos: "0 < Ti" using C T by linarith
  \<comment> \<open>upper bound\<close>
  from k2 have "2 * (100 * P) + C + 1 \<le> 2 * C * (k + 1)" by linarith
  then have "(2 * (100 * P) + C + 1) * Ti \<le> (2 * C * (k + 1)) * Ti"
    using Tpos by (simp only: mult_le_cancel_right_pos) 
  then have u1: "200 * (P * Ti) + C * Ti + Ti \<le> 2 * (C * (k * Ti)) + 2 * (C * Ti)"
    by (simp add: algebra_simps)
  from n1 have u2: "200 * (C * n) \<le> 200 * (P * Ti) + 100 * C" by (simp add: algebra_simps)
  from u1 u2 T have "200 * (C * n) + C * Ti < 2 * (C * (k * Ti)) + 2 * (C * Ti)" by linarith
  then have "C * (2 * (100 * n) + Ti) < C * (2 * Ti * (k + 1))"
    by (simp add: algebra_simps)
  then show "2 * (100 * n) + Ti < 2 * Ti * (k + 1)"
    using C by (simp only: mult_less_cancel_left_pos)
  \<comment> \<open>lower bound\<close>
  have "C * (2 * Ti * k) \<le> C * (2 * (100 * n) + Ti)"
  proof (cases "2 * C * k = 2 * (100 * P) + C")
    case True
    then have "200 * P = C * (2 * k - 1)" by (simp add: algebra_simps)
    then have "(200 * P) * Ti = (C * (2 * k - 1)) * (200 * T')"
      by (simp only: T200)
    then have "200 * (P * Ti) = 200 * (C * ((2 * k - 1) * T'))"
      by (simp only: mult.assoc mult.left_commute [of _ 200])
    then have PT: "P * Ti = C * ((2 * k - 1) * T')" by simp
    from n2 have "2 * (C * ((2 * k - 1) * T')) + C < 2 * C * (n + 1)"
      unfolding PT .
    then have "C * (2 * ((2 * k - 1) * T') + 1) < C * (2 * (n + 1))"
      by (simp add: algebra_simps)
    then have "2 * ((2 * k - 1) * T') + 1 < 2 * (n + 1)"
      using C by (simp only: mult_less_cancel_left_pos)
    moreover have "\<And>M::int. 2 * M + 1 < 2 * (n + 1) \<Longrightarrow> M \<le> n" by presburger
    ultimately have "(2 * k - 1) * T' \<le> n" by blast
    then have "C * ((2 * k - 1) * T') \<le> C * n"
      using C by (simp only: mult_le_cancel_left_pos)
    then have "P * Ti \<le> C * n" unfolding PT .
    moreover have "C * (2 * Ti * k) = 200 * (P * Ti) + C * Ti"
    proof -
      have "C * (2 * Ti * k) = (2 * C * k) * Ti" by (simp add: algebra_simps)
      also have "\<dots> = (2 * (100 * P) + C) * Ti" by (simp only: True)
      also have "\<dots> = 200 * (P * Ti) + C * Ti" by (simp add: algebra_simps)
      finally show ?thesis .
    qed
    ultimately show ?thesis by (simp add: algebra_simps)
  next
    case False
    with k1 have "2 * C * k + 1 \<le> 2 * (100 * P) + C" by linarith
    then have "(2 * C * k + 1) * Ti \<le> (2 * (100 * P) + C) * Ti"
      using Tpos by (simp only: mult_le_cancel_right_pos)
    then have l1: "2 * (C * (k * Ti)) + Ti \<le> 200 * (P * Ti) + C * Ti"
      by (simp add: algebra_simps)
    from n2 have l2: "200 * (P * Ti) + 100 \<le> 200 * (C * n) + 100 * C"
      by (simp add: algebra_simps)
    from l1 l2 T have "2 * (C * (k * Ti)) \<le> 200 * (C * n) + C * Ti" by linarith
    then show ?thesis by (simp add: algebra_simps)
  qed
  then show "2 * Ti * k \<le> 2 * (100 * n) + Ti"
    using C by (simp only: mult_le_cancel_left_pos)
qed

lemma power10_200:
  assumes "100 < (10::int) ^ sc"
  shows "\<exists>T'. (10::int) ^ sc = 200 * T'"
proof -
  have "3 \<le> sc"
  proof (rule ccontr)
    assume "\<not> 3 \<le> sc"
    then have "sc \<le> 2" by simp
    then have "(10::int) ^ sc \<le> 10 ^ 2" by (intro power_increasing) simp_all
    with assms show False by simp
  qed
  then obtain m where "sc = 3 + m" using le_Suc_ex by blast
  then have "(10::int) ^ sc = 200 * (5 * 10 ^ m)" by (simp add: power_add)
  then show ?thesis ..
qed

text \<open>The store divides at a finite scale: the quotient \<open>positive / completed\<close> is itself
  rounded to \<open>sc\<close> decimal places before it is multiplied by 100 and rounded again. Whenever
  \<open>100 * completed < 10 ^ sc\<close> this gives the score of the exact quotient (PostgreSQL
  computes a quotient to at least 16 significant digits).\<close>

lemma quotient_scale_irrelevant:
  fixes p c sc :: nat
  assumes "0 < c" and "100 * c < 10 ^ sc"
  shows "round_half_away (pg_round sc (of_nat p / of_nat c) * 100)
       = round_half_away (of_nat p / of_nat c * 100)"
proof -
  define P C Ti where "P = int p" and "C = int c" and "Ti = (10::int) ^ sc"
  have C: "0 < C" and P: "0 \<le> P" using assms(1) by (simp_all add: C_def P_def)
  have T: "100 * C < Ti"
    using assms(2) unfolding C_def Ti_def by (metis of_nat_less_iff of_nat_mult of_nat_numeral of_nat_power)
  then have "100 < Ti" using C by linarith
  then obtain T' where T200: "Ti = 200 * T'" unfolding Ti_def using power10_200 by blast
  have Tpos: "0 < Ti" using C T by linarith
  define x :: rat where "x = of_nat p / of_nat c"
  have x: "x = of_int P / of_int C" by (simp add: x_def P_def C_def)
  have x0: "0 \<le> x" by (simp add: x_def)
  have Tr: "(10::rat) ^ sc = of_int Ti" by (simp add: Ti_def)
  define n where "n = \<lfloor>x * of_int Ti + 1 / 2\<rfloor>"
  define k where "k = \<lfloor>x * 100 + 1 / 2\<rfloor>"
  have xT: "x * of_int Ti = of_int (P * Ti) / of_int C" by (simp add: x)
  have x100: "x * 100 = of_int (100 * P) / of_int C" by (simp add: x)
  have n: "2 * C * n \<le> 2 * (P * Ti) + C" "2 * (P * Ti) + C < 2 * C * (n + 1)"
    using half_floor_bounds [OF C, of n "P * Ti"] unfolding n_def xT by blast+
  have k: "2 * C * k \<le> 2 * (100 * P) + C" "2 * (100 * P) + C < 2 * C * (k + 1)"
    using half_floor_bounds [OF C, of k "100 * P"] unfolding k_def x100 by blast+
  have n0: "0 \<le> n" unfolding n_def using x0 Tpos by (simp add: zero_le_floor)
  have "2 * Ti * k \<le> 2 * (100 * n) + Ti" "2 * (100 * n) + Ti < 2 * Ti * (k + 1)"
    using rounded_quotient_core [OF C P T T200 n k] by blast+
  then have "\<lfloor>(of_int (100 * n) / of_int Ti :: rat) + 1 / 2\<rfloor> = k"
    by (rule half_floor_unique [OF Tpos])
  moreover have "pg_round sc x * 100 = of_int (100 * n) / of_int Ti"
    using x0 Tpos by (simp add: pg_round_def round_half_away_def Tr n_def)
  moreover have "0 \<le> pg_round sc x * 100"
    using n0 Tpos unfolding \<open>pg_round sc x * 100 = of_int (100 * n) / of_int Ti\<close>
    by simp
  ultimately have "round_half_away (pg_round sc x * 100) = k"
    by (simp add: round_half_away_def)
  moreover have "round_half_away (x * 100) = k"
    using x0 by (simp add: round_half_away_def k_def)
  ultimately show ?thesis unfolding x_def by simp
qed


lemma round_half_away_nonneg: "0 \<le> x \<Longrightarrow> round_half_away x = round x"
  by (simp add: round_half_away_def round_def)

lemma completed_spec_eq: "completed_spec s userId = completed_deals_of s userId"
  by (auto simp: completed_spec_def completed_deals_of_def counterpart_ratings_spec_def
      intro!: filter_cong)

lemma positive_spec_eq: "length (positive_spec s userId) = positive_ratings s userId"
proof -
  have "positive_spec s userId =
      filter (\<lambda>d. (d_buyer_id d = userId \<and> at_least_4 (d_seller_rating d)) \<or>
                          (d_seller_id d = userId \<and> at_least_4 (d_buyer_rating d)))
               (completed_deals_of s userId)"
    unfolding positive_spec_def completed_spec_eq
    by (rule filter_cong) (auto simp: counterpart_ratings_spec_def)
  then show ?thesis by (simp add: positive_ratings_def)
qed

lemma reputation_score_spec: "reputation_score s userId = score_spec s userId"
  by (simp add: reputation_score_def score_spec_def total_completed_deals_def
      completed_spec_eq positive_spec_eq round_half_away_nonneg)

lemma positive_le_total: "positive_ratings s userId \<le> total_completed_deals s userId"
  by (simp add: positive_ratings_def total_completed_deals_def)

lemma find_map_user:
  "find (\<lambda>u. u_id u = i) (map (\<lambda>u. if u_id u = i then f u else u) us) =
     map_option f (find (\<lambda>u. u_id u = i) us)" if "\<And>u. u_id (f u) = u_id u"
  using that by (induction us) auto

text \<open>
  Claim C3. \<open>updateUserReputation\<close> writes into the user's row the score of the
  specification, and returns it: 0 when the user has no completed deal, and otherwise
  \<open>round (positive / completed * 100)\<close>, where \<open>completed\<close> counts the deals with status
  completed in which the user is buyer or seller and \<open>positive\<close> those of them whose
  counterpart rating is at least 4. It also writes the two counts, and changes no other
  row and no deal. For a user id without a row it returns 0.
\<close>

theorem updateUserReputation_score:
  assumes "updateUserReputation s userId = (s', r)"
  shows "deal_rows s' = deal_rows s \<and> ads s' = ads s \<and> notifications s' = notifications s \<and>
         users s' = map (\<lambda>u. if u_id u = userId
                              then u\<lparr>u_reputation_score := score_spec s userId,
                                     u_total_trades := int (length (completed_spec s userId)),
                                     u_successful_trades := int (length (positive_spec s userId))\<rparr>
                              else u) (users s) \<and>
         r = (if user_exists s userId then score_spec s userId else 0) \<and>
         score_spec s userId =
           (if length (completed_spec s userId) = 0 then 0
            else round (of_nat (length (positive_spec s userId)) /
                        of_nat (length (completed_spec s userId)) * 100 :: rat))"
proof -
  let ?f = "\<lambda>u. u\<lparr>u_reputation_score := reputation_score s userId,
                    u_total_trades := int (total_completed_deals s userId),
                    u_successful_trades := int (positive_ratings s userId)\<rparr>"
  have f: "find (\<lambda>u. u_id u = userId) (map (\<lambda>u. if u_id u = userId then ?f u else u) (users s))
      = map_option ?f (find (\<lambda>u. u_id u = userId) (users s))"
    by (rule find_map_user) simp
  from assms have s': "s' = s\<lparr>users := map (\<lambda>u. if u_id u = userId then ?f u else u) (users s)\<rparr>"
    and r: "r = (case map_option ?f (find (\<lambda>u. u_id u = userId) (users s)) of
                   None \<Rightarrow> 0 | Some u \<Rightarrow> u_reputation_score u)"
    unfolding updateUserReputation_def Let_def f by simp_all
  from r have "r = (if user_exists s userId then score_spec s userId else 0)"
    by (auto simp: user_exists_def reputation_score_spec split: option.splits)
  with s' show ?thesis
    by (simp add: reputation_score_spec total_completed_deals_def completed_spec_eq
        positive_spec_eq score_spec_def)
qed

lemma example_completed:
  "completed_deals_of
     (example_db [example_row ''d1'' ''completed'' 87400 (Some 2) (Some 4),
                  example_row ''d2'' ''completed'' 87400 (Some 1) (Some 5),
                  example_row ''d3'' ''completed'' 87400 (Some 5) None,
                  example_row ''d4'' ''funded'' 87400 (Some 5) (Some 5)]) ''bob''
   = [example_row ''d1'' ''completed'' 87400 (Some 2) (Some 4),
      example_row ''d2'' ''completed'' 87400 (Some 1) (Some 5),
      example_row ''d3'' ''completed'' 87400 (Some 5) None]"
  by (simp add: completed_deals_of_def example_row_def)

lemma example_reputation:
  "updateUserReputation
     (example_db [example_row ''d1'' ''completed'' 87400 (Some 2) (Some 4),
                  example_row ''d2'' ''completed'' 87400 (Some 1) (Some 5),
                  example_row ''d3'' ''completed'' 87400 (Some 5) None,
                  example_row ''d4'' ''funded'' 87400 (Some 5) (Some 5)]) ''bob''
   = ((example_db [example_row ''d1'' ''completed'' 87400 (Some 2) (Some 4),
                  example_row ''d2'' ''completed'' 87400 (Some 1) (Some 5),
                  example_row ''d3'' ''completed'' 87400 (Some 5) None,
                  example_row ''d4'' ''funded'' 87400 (Some 5) (Some 5)])
        \<lparr>users := [example_user ''alice'' ''0xaa'',
                   (example_user ''bob'' ''0xbb'')
                     \<lparr>u_reputation_score := 67, u_total_trades := 3, u_successful_trades := 2\<rparr>,
                   example_user ''carol'' ''0xcc'']\<rparr>, 67)"
proof -
  let ?s = "example_db [example_row ''d1'' ''completed'' 87400 (Some 2) (Some 4),
                  example_row ''d2'' ''completed'' 87400 (Some 1) (Some 5),
                  example_row ''d3'' ''completed'' 87400 (Some 5) None,
                  example_row ''d4'' ''funded'' 87400 (Some 5) (Some 5)]"
  have t: "total_completed_deals ?s ''bob'' = 3"
    by (simp add: total_completed_deals_def example_completed)
  have p: "positive_ratings ?s ''bob'' = 2"
    by (simp add: positive_ratings_def example_completed) (simp add: example_row_def at_least_4_def)
  have r: "reputation_score ?s ''bob'' = 67"
    by (simp add: reputation_score_def t p round_half_away_def)
  show ?thesis
    by (simp add: updateUserReputation_def t p r Let_def example_user_def)
qed

theorem updateUserReputation_score_witness:
  "score_spec
     (example_db [example_row ''d1'' ''completed'' 87400 (Some 2) (Some 4),
                  example_row ''d2'' ''completed'' 87400 (Some 1) (Some 5),
                  example_row ''d3'' ''completed'' 87400 (Some 5) None,
                  example_row ''d4'' ''funded'' 87400 (Some 5) (Some 5)]) ''bob'' = 67 \<and>
   snd (updateUserReputation
     (example_db [example_row ''d1'' ''completed'' 87400 (Some 2) (Some 4),
                  example_row ''d2'' ''completed'' 87400 (Some 1) (Some 5),
                  example_row ''d3'' ''completed'' 87400 (Some 5) None,
                  example_row ''d4'' ''funded'' 87400 (Some 5) (Some 5)]) ''bob'') = 67 \<and>
   round (2 / 3 * 100 :: rat) = 67"
proof -
  let ?s = "example_db [example_row ''d1'' ''completed'' 87400 (Some 2) (Some 4),
                  example_row ''d2'' ''completed'' 87400 (Some 1) (Some 5),
                  example_row ''d3'' ''completed'' 87400 (Some 5) None,
                  example_row ''d4'' ''funded'' 87400 (Some 5) (Some 5)]"
  have u: "user_exists ?s ''bob''"
    by (simp add: user_exists_def example_user_def)
  from updateUserReputation_score [OF example_reputation] u
  have "score_spec ?s ''bob'' = 67" by simp
  moreover have "round (2 / 3 * 100 :: rat) = 67" by (simp add: round_def)
  ultimately show ?thesis by (simp add: example_reputation)
qed

subsection \<open>Status updates\<close>

lemma find_map_deal:
  "find (\<lambda>d. d_id d = i) (map (\<lambda>d. if d_id d = i then f d else d) ds) =
     map_option f (find (\<lambda>d. d_id d = i) ds)" if "\<And>d. d_id (f d) = d_id d"
  using that by (induction ds) auto

lemma set_fields_id [simp]: "d_id (set_fields now st upd d) = d_id d"
  by (simp add: set_fields_def)

lemma set_fields_status [simp]: "d_status (set_fields now st upd d) = st"
  by (simp add: set_fields_def)

lemma set_fields_updated_at [simp]: "d_updated_at (set_fields now st upd d) = now"
  by (simp add: set_fields_def)

lemma set_fields_parties [simp]:
  "d_buyer_id (set_fields now st upd d) = d_buyer_id d"
  "d_seller_id (set_fields now st upd d) = d_seller_id d"
  by (simp_all add: set_fields_def)

lemma find_Some_member: "find P xs = Some x \<Longrightarrow> x \<in> set xs \<and> P x"
  by (induction xs) (auto split: if_splits)

lemma updateDealStatus_Inr:
  assumes "updateDealStatus now s i st upd = Inr (s1, r)"
  shows "s1 = s\<lparr>deal_rows := map (\<lambda>d. if d_id d = i then set_fields now st upd d else d)
                                (deal_rows s)\<rparr>"
    and "r = map_option (set_fields now st upd) (getDealById s i)"
    and "getDealById s1 i = r"
    and "getDealById s i = Some cur \<Longrightarrow> deal_row_check (set_fields now st upd cur)"
proof -
  let ?rows = "map (\<lambda>d. if d_id d = i then set_fields now st upd d else d) (deal_rows s)"
  have f: "find (\<lambda>d. d_id d = i) ?rows = map_option (set_fields now st upd) (getDealById s i)"
    unfolding getDealById_def by (rule find_map_deal) simp
  from assms have ok: "list_all (\<lambda>d. d_id d = i \<longrightarrow> deal_row_check d) ?rows"
    and s1: "s1 = s\<lparr>deal_rows := ?rows\<rparr>" and r: "r = find (\<lambda>d. d_id d = i) ?rows"
    by (auto simp: updateDealStatus_def Let_def split: if_splits)
  show "s1 = s\<lparr>deal_rows := ?rows\<rparr>" by (rule s1)
  show "r = map_option (set_fields now st upd) (getDealById s i)" using r f by simp
  show "getDealById s1 i = r" using s1 r by (simp add: getDealById_def)
  assume "getDealById s i = Some cur"
  then have "find (\<lambda>d. d_id d = i) ?rows = Some (set_fields now st upd cur)"
    using f by simp
  then have "set_fields now st upd cur \<in> set ?rows" "d_id (set_fields now st upd cur) = i"
    using find_Some_member by fastforce+
  with ok show "deal_row_check (set_fields now st upd cur)"
    by (auto simp: list_all_iff)
qed

lemma deal_row_check_set_fields:
  assumes "deal_row_check d" and "st \<in> set deal_statuses"
    and "rating_check (upd_seller_rating upd)" and "rating_check (upd_buyer_rating upd)"
  shows "deal_row_check (set_fields now st upd d)"
  using assms
  by (auto simp: deal_row_check_def set_fields_def assigned_def rating_check_def
      split: option.splits)

lemma updateDealStatus_succeeds:
  assumes "list_all deal_row_check (deal_rows s)" and "st \<in> set deal_statuses"
    and "rating_check (upd_seller_rating upd)" and "rating_check (upd_buyer_rating upd)"
  shows "updateDealStatus now s i st upd =
     Inr (s\<lparr>deal_rows := map (\<lambda>d. if d_id d = i then set_fields now st upd d else d)
                            (deal_rows s)\<rparr>,
          map_option (set_fields now st upd) (getDealById s i))"
proof -
  let ?rows = "map (\<lambda>d. if d_id d = i then set_fields now st upd d else d) (deal_rows s)"
  have "list_all (\<lambda>d. d_id d = i \<longrightarrow> deal_row_check d) ?rows"
    using assms(1) deal_row_check_set_fields [OF _ assms(2-4)]
    by (auto simp: list_all_iff)
  moreover have "find (\<lambda>d. d_id d = i) ?rows = map_option (set_fields now st upd) (getDealById s i)"
    unfolding getDealById_def by (rule find_map_deal) simp
  ultimately show ?thesis by (simp add: updateDealStatus_def Let_def)
qed

lemma updateUserReputation_fst:
  "fst (updateUserReputation s userId) =
     s\<lparr>users := map (\<lambda>u. if u_id u = userId
                           then u\<lparr>u_reputation_score := reputation_score s userId,
                                  u_total_trades := int (total_completed_deals s userId),
                                  u_successful_trades := int (positive_ratings s userId)\<rparr>
                           else u) (users s)\<rparr>"
  by (simp add: updateUserReputation_def Let_def)

lemma reputation_cong:
  assumes "deal_rows a = deal_rows b"
  shows "reputation_score a = reputation_score b"
    and "total_completed_deals a = total_completed_deals b"
    and "positive_ratings a = positive_ratings b"
  using assms
  by (simp_all add: reputation_score_def total_completed_deals_def positive_ratings_def
      completed_deals_of_def fun_eq_iff)

lemma PUT_Inr:
  assumes "PUT now s i body = (s', Inr r)"
  obtains cur u s1 where
    "put_walletAddress body \<noteq> []" "put_status body \<noteq> []"
    "getDealById s i = Some cur"
    "getUserByWallet s (put_walletAddress body) = Some u"
    "u_id u = d_buyer_id cur \<or> u_id u = d_seller_id cur"
    "updateDealStatus now s i (put_status body) (updateData u cur body) = Inr (s1, r)"
    "deal_rows s' = deal_rows s1" "ads s' = ads s1"
    "users s' =
       (if put_status body = ''completed''
        then users (fst (updateUserReputation (fst (updateUserReputation s1 (d_buyer_id cur)))
                           (d_seller_id cur)))
        else users s1)"
  using assms
  by (auto simp: PUT_def Let_def createNotification_def updateUserReputation_fst
      split: if_splits option.splits sum.splits)

lemma PUT_Inl:
  assumes "PUT now s i body = (s', Inl e)"
  shows "s' = s"
  using assms
  by (auto simp: PUT_def Let_def split: if_splits option.splits sum.splits)

lemma PUT_commits_Inl:
  assumes "PUT now s i body = (s', Inl e)"
  shows "PUT_commits now s i body = []"
  using assms
  by (auto simp: PUT_def PUT_commits_def Let_def split: if_splits option.splits sum.splits)

lemma PUT_commits_Inr:
  assumes "PUT now s i body = (s', Inr r)"
  obtains cur u s1 rest where
    "getDealById s i = Some cur"
    "getUserByWallet s (put_walletAddress body) = Some u"
    "updateDealStatus now s i (put_status body) (updateData u cur body) = Inr (s1, r)"
    "PUT_commits now s i body = s1 # rest"
    "last (s1 # rest) = s'"
  using assms
  by (auto simp: PUT_def PUT_commits_def Let_def split: if_splits option.splits sum.splits)

text \<open>The CHECK constraints of the deal rows hold in every store the operations leave.\<close>

lemma createDeal_checked:
  "list_all deal_row_check (deal_rows s) \<Longrightarrow> createDeal now fresh s dd = Inr (s1, row) \<Longrightarrow>
     list_all deal_row_check (deal_rows s1)"
  using createDeal_Inr(9,10) by fastforce

lemma updateDealStatus_checked:
  assumes "list_all deal_row_check (deal_rows s)"
    and "updateDealStatus now s i st upd = Inr (s1, r)"
  shows "list_all deal_row_check (deal_rows s1)"
proof -
  from assms(2) have "list_all (\<lambda>d. d_id d = i \<longrightarrow> deal_row_check d)
      (map (\<lambda>d. if d_id d = i then set_fields now st upd d else d) (deal_rows s))"
    by (auto simp: updateDealStatus_def Let_def split: if_splits)
  with assms(1) show ?thesis
    unfolding updateDealStatus_Inr(1) [OF assms(2)]
    by (auto simp: list_all_iff)
qed

lemma expireOldDeals_checked:
  "list_all deal_row_check (deal_rows s) \<Longrightarrow> list_all deal_row_check (deal_rows (expireOldDeals now s))"
  by (auto simp: expireOldDeals_def list_all_iff deal_row_check_def deal_statuses_def)

lemma POST_checked:
  assumes "list_all deal_row_check (deal_rows s)" and "POST now fresh s body = (s', r)"
  shows "list_all deal_row_check (deal_rows s')"
proof (cases r)
  case (Inl e)
  with assms POST_Inl show ?thesis by blast
next
  case (Inr d)
  with assms(2) obtain ad b s1 where "createDeal now fresh s (dealData ad b body) = Inr (s1, d)"
    "deal_rows s' = deal_rows s1"
    by (auto elim: POST_Inr)
  with createDeal_checked [OF assms(1)] show ?thesis by simp
qed

lemma PUT_checked:
  assumes "list_all deal_row_check (deal_rows s)" and "PUT now s i body = (s', r)"
  shows "list_all deal_row_check (deal_rows s')"
proof (cases r)
  case (Inl e)
  with assms PUT_Inl show ?thesis by blast
next
  case (Inr d)
  with assms(2) obtain cur u s1 where
    "updateDealStatus now s i (put_status body) (updateData u cur body) = Inr (s1, d)"
    "deal_rows s' = deal_rows s1"
    by (auto elim: PUT_Inr)
  with updateDealStatus_checked [OF assms(1)] show ?thesis by simp
qed

lemma PUT_users:
  assumes "PUT now s i body = (s', Inr r)" and "getDealById s i = Some cur"
  shows "users s' =
     (if put_status body = ''completed''
      then map (\<lambda>u. if u_id u = d_buyer_id cur \<or> u_id u = d_seller_id cur
                     then recomputed s' u else u) (users s)
      else users s)"
proof -
  from assms(1) obtain cur' u s1 where *:
    "getDealById s i = Some cur'"
    "updateDealStatus now s i (put_status body) (updateData u cur' body) = Inr (s1, r)"
    "deal_rows s' = deal_rows s1"
    "users s' =
       (if put_status body = ''completed''
        then users (fst (updateUserReputation (fst (updateUserReputation s1 (d_buyer_id cur')))
                           (d_seller_id cur')))
        else users s1)"
    by (rule PUT_Inr)
  from *(1) assms(2) have [simp]: "cur' = cur" by simp
  have u1: "users s1 = users s"
    using updateDealStatus_Inr(1) [OF *(2)] by simp
  let ?s2 = "fst (updateUserReputation s1 (d_buyer_id cur))"
  have d2: "deal_rows ?s2 = deal_rows s'"
    by (simp add: updateUserReputation_fst *(3))
  have d1: "deal_rows s1 = deal_rows s'" by (simp add: *(3))
  show ?thesis
  proof (cases "put_status body = ''completed''")
    case False
    with *(4) u1 show ?thesis by simp
  next
    case True
    let ?b = "d_buyer_id cur" and ?c = "d_seller_id cur"
    note r1 = reputation_cong [OF d1] and r2 = reputation_cong [OF d2]
    have users2: "users ?s2 = map (\<lambda>u. if u_id u = ?b then recomputed s' u else u) (users s)"
      by (simp add: updateUserReputation_fst [of s1] u1 r1 recomputed_def)
    have "users (fst (updateUserReputation ?s2 ?c)) =
        map (\<lambda>u. if u_id u = ?c then recomputed s' u else u) (users ?s2)"
      unfolding updateUserReputation_fst [of ?s2 ?c] r2 by (simp add: recomputed_def)
    also have "\<dots> = map (\<lambda>u. if u_id u = ?b \<or> u_id u = ?c then recomputed s' u else u) (users s)"
      unfolding users2 by (auto simp: recomputed_def)
    finally have "users (fst (updateUserReputation ?s2 (d_seller_id cur))) =
        map (\<lambda>u. if u_id u = d_buyer_id cur \<or> u_id u = d_seller_id cur
                     then recomputed s' u else u) (users s)" .
    with True *(4) show ?thesis by simp
  qed
qed

text \<open>
  Claim C5, as amended. A status update that the \<open>PUT\<close> handler applies with the status
  completed recomputes the reputation of the deal's buyer and seller in the same request:
  the store the handler leaves holds, in the rows of these two users, the reputation
  recomputed from the deals of that very store, the updated deal among them, and all other
  user rows are as before. The recomputation is not atomic with the status write: the
  status write is committed first, as a statement of its own that leaves the user rows as
  they were, and the reputation statements follow it. An error answer commits nothing. An
  update to any other status, the expiry sweep, the creation of a deal and
  \<open>updateDealStatus\<close> itself leave the user rows unchanged.
\<close>

theorem PUT_recomputes_reputation:
  "(PUT now s i body = (s', Inr r) \<longrightarrow>
      (\<exists>cur s1 rest. getDealById s i = Some cur \<and>
         PUT_commits now s i body = s1 # rest \<and> last (s1 # rest) = s' \<and>
         getDealById s1 i = r \<and> users s1 = users s \<and>
         getDealById s' i = r \<and> map_option d_status r = Some (put_status body) \<and>
         users s' =
           (if put_status body = ''completed''
            then map (\<lambda>u. if u_id u = d_buyer_id cur \<or> u_id u = d_seller_id cur
                           then recomputed s' u else u) (users s)
            else users s))) \<and>
   (PUT now s i body = (s', Inl e) \<longrightarrow> s' = s \<and> PUT_commits now s i body = []) \<and>
   users (expireOldDeals now s) = users s \<and>
   (POST now fresh s pb = (s2, r2) \<longrightarrow> users s2 = users s) \<and>
   (updateDealStatus now s i st upd = Inr (s3, r3) \<longrightarrow> users s3 = users s)"
proof (intro conjI impI)
  assume a: "PUT now s i body = (s', Inr r)"
  then obtain cur u s1 rest where *:
    "getDealById s i = Some cur"
    "updateDealStatus now s i (put_status body) (updateData u cur body) = Inr (s1, r)"
    "PUT_commits now s i body = s1 # rest" "last (s1 # rest) = s'"
    by (rule PUT_commits_Inr)
  from a obtain cur' u' s1' where **:
    "updateDealStatus now s i (put_status body) (updateData u' cur' body) = Inr (s1', r)"
    "deal_rows s' = deal_rows s1'"
    by (rule PUT_Inr)
  have "getDealById s' i = r"
    using updateDealStatus_Inr(3) [OF **(1)] **(2) by (simp add: getDealById_def)
  moreover have "map_option d_status r = Some (put_status body)"
    using updateDealStatus_Inr(2) [OF *(2)] *(1) by simp
  moreover have "getDealById s1 i = r" "users s1 = users s"
    using updateDealStatus_Inr(1,3) [OF *(2)] by simp_all
  ultimately show "\<exists>cur s1 rest. getDealById s i = Some cur \<and>
         PUT_commits now s i body = s1 # rest \<and> last (s1 # rest) = s' \<and>
         getDealById s1 i = r \<and> users s1 = users s \<and>
         getDealById s' i = r \<and> map_option d_status r = Some (put_status body) \<and>
         users s' =
           (if put_status body = ''completed''
            then map (\<lambda>u. if u_id u = d_buyer_id cur \<or> u_id u = d_seller_id cur
                           then recomputed s' u else u) (users s)
            else users s)"
    using PUT_users [OF a *(1)] *(1,3,4) by blast
next
  assume a: "PUT now s i body = (s', Inl e)"
  then show "s' = s" by (rule PUT_Inl)
  from a show "PUT_commits now s i body = []" by (rule PUT_commits_Inl)
next
  show "users (expireOldDeals now s) = users s" by (simp add: expireOldDeals_def)
next
  assume a: "POST now fresh s pb = (s2, r2)"
  show "users s2 = users s"
  proof (cases r2)
    case (Inl e)
    with a POST_Inl show ?thesis by blast
  next
    case (Inr d)
    with a obtain ad b s1 where "createDeal now fresh s (dealData ad b pb) = Inr (s1, d)"
      "users s2 = users s1"
      by (auto elim: POST_Inr)
    then show ?thesis using createDeal_Inr(9) by fastforce
  qed
next
  assume "updateDealStatus now s i st upd = Inr (s3, r3)"
  then show "users s3 = users s" using updateDealStatus_Inr(1) by fastforce
qed

lemma updateData_ratings:
  assumes "put_rating body \<noteq> 0 \<and> put_feedback body \<noteq> [] \<longrightarrow> 1 \<le> put_rating body \<and> put_rating body \<le> 5"
  shows "rating_check (upd_seller_rating (updateData u cur body))"
    and "rating_check (upd_buyer_rating (updateData u cur body))"
  using assms by (auto simp: updateData_def rating_check_def Let_def)

lemma PUT_accepted:
  assumes "put_walletAddress body \<noteq> []" and "getDealById s i = Some cur"
    and "getUserByWallet s (put_walletAddress body) = Some u"
    and "u_id u = d_buyer_id cur \<or> u_id u = d_seller_id cur"
    and "put_status body \<in> set deal_statuses"
    and "list_all deal_row_check (deal_rows s)"
    and "put_rating body \<noteq> 0 \<and> put_feedback body \<noteq> [] \<longrightarrow> 1 \<le> put_rating body \<and> put_rating body \<le> 5"
  shows "\<exists>s'. PUT now s i body =
           (s', Inr (Some (set_fields now (put_status body) (updateData u cur body) cur)))"
proof -
  have ne: "put_status body \<noteq> []" using assms(5) by (auto simp: deal_statuses_def)
  note upd = updateDealStatus_succeeds [OF assms(6,5) updateData_ratings [OF assms(7), of u cur],
      of now i]
  show ?thesis
    using assms(1-4) ne
    by (auto simp: PUT_def upd Let_def)
qed



lemma example_rows_checked:
  "st \<in> set deal_statuses \<Longrightarrow> rating_check br \<Longrightarrow> rating_check sr \<Longrightarrow>
     deal_row_check (example_row i st expires br sr)"
  by (simp add: deal_row_check_def example_row_def)








lemma example_rated_reputation:
  assumes "deal_rows s =
     [(example_row ''d1'' ''completed'' 87400 (Some 5) None)
        \<lparr>d_buyer_feedback := Some ''good'', d_updated_at := 2000, d_completed_at := Some 2000\<rparr>,
      example_row ''d2'' ''completed'' 87400 (Some 2) (Some 4)]"
  shows "recomputed s (example_user ''alice'' ''0xaa'') =
           (example_user ''alice'' ''0xaa'')
             \<lparr>u_reputation_score := 50, u_total_trades := 2, u_successful_trades := 1\<rparr>"
    and "recomputed s (example_user ''bob'' ''0xbb'') =
           (example_user ''bob'' ''0xbb'')
             \<lparr>u_reputation_score := 50, u_total_trades := 2, u_successful_trades := 1\<rparr>"
proof -
  have c: "completed_deals_of s ''alice'' = deal_rows s" "completed_deals_of s ''bob'' = deal_rows s"
    unfolding completed_deals_of_def assms by (simp_all add: example_row_def)
  have t: "total_completed_deals s ''alice'' = 2" "total_completed_deals s ''bob'' = 2"
    unfolding total_completed_deals_def c by (simp_all add: assms)
  have p: "positive_ratings s ''alice'' = 1" "positive_ratings s ''bob'' = 1"
    unfolding positive_ratings_def c assms by (simp_all add: example_row_def at_least_4_def)
  have r: "reputation_score s ''alice'' = 50" "reputation_score s ''bob'' = 50"
    unfolding reputation_score_def t p by (simp_all add: round_half_away_def)
  show "recomputed s (example_user ''alice'' ''0xaa'') =
           (example_user ''alice'' ''0xaa'')
             \<lparr>u_reputation_score := 50, u_total_trades := 2, u_successful_trades := 1\<rparr>"
    and "recomputed s (example_user ''bob'' ''0xbb'') =
           (example_user ''bob'' ''0xbb'')
             \<lparr>u_reputation_score := 50, u_total_trades := 2, u_successful_trades := 1\<rparr>"
    by (simp_all add: recomputed_def example_user_def t p r)
qed

lemma example_status_write:
  "hd (PUT_commits 2000 (example_db [example_row ''d1'' ''payment_sent'' 87400 None None,
                                     example_row ''d2'' ''completed'' 87400 (Some 2) (Some 4)])
         ''d1'' (example_put ''completed'' ''0xAA'' 5 ''good''))
   = example_db
      [(example_row ''d1'' ''completed'' 87400 (Some 5) None)
         \<lparr>d_buyer_feedback := Some ''good'', d_updated_at := 2000, d_completed_at := Some 2000\<rparr>,
       example_row ''d2'' ''completed'' 87400 (Some 2) (Some 4)]"
  by (simp add: PUT_commits_def example_put_def getDealById_def example_wallet_alice
      updateData_def if_given_def updateDealStatus_def set_fields_def assigned_def
      deal_row_check_def rating_check_def deal_statuses_def example_row_def example_user_def
      Let_def)

text \<open>The seller completes the deal and rates the buyer. The store that the status write
  commits holds the completed deal and the user rows as they were: the seller's row has the
  score 0, and the score recomputed from that store is 50.\<close>

theorem status_write_commits_alone_counterexample:
  "map_option d_status
     (getDealById
        (hd (PUT_commits 2000 (example_db [example_row ''d1'' ''payment_sent'' 87400 None None,
                                     example_row ''d2'' ''completed'' 87400 (Some 2) (Some 4)])
               ''d1'' (example_put ''completed'' ''0xAA'' 5 ''good''))) ''d1'')
     = Some ''completed'' \<and>
   users (hd (PUT_commits 2000 (example_db [example_row ''d1'' ''payment_sent'' 87400 None None,
                                     example_row ''d2'' ''completed'' 87400 (Some 2) (Some 4)])
               ''d1'' (example_put ''completed'' ''0xAA'' 5 ''good'')))
     = [example_user ''alice'' ''0xaa'', example_user ''bob'' ''0xbb'',
        example_user ''carol'' ''0xcc''] \<and>
   u_reputation_score (example_user ''alice'' ''0xaa'') = 0 \<and>
   reputation_score
     (hd (PUT_commits 2000 (example_db [example_row ''d1'' ''payment_sent'' 87400 None None,
                                     example_row ''d2'' ''completed'' 87400 (Some 2) (Some 4)])
               ''d1'' (example_put ''completed'' ''0xAA'' 5 ''good''))) ''alice'' = 50"
proof -
  let ?c = "example_db
      [(example_row ''d1'' ''completed'' 87400 (Some 5) None)
         \<lparr>d_buyer_feedback := Some ''good'', d_updated_at := 2000, d_completed_at := Some 2000\<rparr>,
       example_row ''d2'' ''completed'' 87400 (Some 2) (Some 4)]"
  have "recomputed ?c (example_user ''alice'' ''0xaa'') =
           (example_user ''alice'' ''0xaa'')
             \<lparr>u_reputation_score := 50, u_total_trades := 2, u_successful_trades := 1\<rparr>"
    by (rule example_rated_reputation) simp
  then have "reputation_score ?c ''alice'' = 50"
    by (simp add: recomputed_def example_user_def)
  then show ?thesis
    unfolding example_status_write
    by (simp add: getDealById_def) (simp add: example_row_def example_user_def)
qed

theorem PUT_recomputes_reputation_witness:
  "\<exists>s' r. PUT 2000 (example_db [example_row ''d1'' ''payment_sent'' 87400 None None,
                                 example_row ''d2'' ''completed'' 87400 (Some 2) (Some 4)])
              ''d1'' (example_put ''completed'' ''0xAA'' 5 ''good'') = (s', Inr r) \<and>
          map_option d_status r = Some ''completed'' \<and>
          users s' =
            [(example_user ''alice'' ''0xaa'')
               \<lparr>u_reputation_score := 50, u_total_trades := 2, u_successful_trades := 1\<rparr>,
             (example_user ''bob'' ''0xbb'')
               \<lparr>u_reputation_score := 50, u_total_trades := 2, u_successful_trades := 1\<rparr>,
             example_user ''carol'' ''0xcc'']"
proof -
  let ?s = "example_db [example_row ''d1'' ''payment_sent'' 87400 None None,
                        example_row ''d2'' ''completed'' 87400 (Some 2) (Some 4)]"
  let ?b = "example_put ''completed'' ''0xAA'' 5 ''good''"
  let ?cur = "example_row ''d1'' ''payment_sent'' 87400 None None"
  have b: "put_walletAddress ?b = ''0xAA''" "put_status ?b = ''completed''" "put_rating ?b = 5"
    by (simp_all add: example_put_def)
  have h: "put_walletAddress ?b \<noteq> []" "getDealById ?s ''d1'' = Some ?cur"
    "getUserByWallet ?s (put_walletAddress ?b) = Some (example_user ''alice'' ''0xaa'')"
    "u_id (example_user ''alice'' ''0xaa'') = d_buyer_id ?cur \<or>
     u_id (example_user ''alice'' ''0xaa'') = d_seller_id ?cur"
    "put_status ?b \<in> set deal_statuses"
    "list_all deal_row_check (deal_rows ?s)"
    "put_rating ?b \<noteq> 0 \<and> put_feedback ?b \<noteq> [] \<longrightarrow> 1 \<le> put_rating ?b \<and> put_rating ?b \<le> 5"
    unfolding b
    by (simp_all add: getDealById_def example_wallet_alice example_rows_checked rating_check_def
        deal_statuses_def) (simp_all add: example_row_def example_user_def)
  from PUT_accepted [OF h, of 2000] obtain s' r where p: "PUT 2000 ?s ''d1'' ?b = (s', Inr r)"
    by blast
  from p obtain cur u s1 where *: "getDealById ?s ''d1'' = Some cur"
    "getUserByWallet ?s (put_walletAddress ?b) = Some u"
    "updateDealStatus 2000 ?s ''d1'' (put_status ?b) (updateData u cur ?b) = Inr (s1, r)"
    "deal_rows s' = deal_rows s1"
    by (rule PUT_Inr)
  from * h have [simp]: "cur = ?cur" "u = example_user ''alice'' ''0xaa''" by simp_all
  have rows: "deal_rows s' =
     [(example_row ''d1'' ''completed'' 87400 (Some 5) None)
        \<lparr>d_buyer_feedback := Some ''good'', d_updated_at := 2000, d_completed_at := Some 2000\<rparr>,
      example_row ''d2'' ''completed'' 87400 (Some 2) (Some 4)]"
    using updateDealStatus_Inr(1) [OF *(3)] *(4)
    by (simp add: set_fields_def updateData_def example_put_def if_given_def assigned_def
        example_row_def example_user_def Let_def)
  from PUT_recomputes_reputation [where s = ?s and body = ?b and i = "''d1''" and now = 2000
      and s' = s' and r = r, THEN conjunct1] p h(2)
  have st: "map_option d_status r = Some ''completed''"
    and us: "users s' = map (\<lambda>u. if u_id u = d_buyer_id ?cur \<or> u_id u = d_seller_id ?cur
                           then recomputed s' u else u) (users ?s)"
    by (auto simp: b)
  have "users s' =
            [(example_user ''alice'' ''0xaa'')
               \<lparr>u_reputation_score := 50, u_total_trades := 2, u_successful_trades := 1\<rparr>,
             (example_user ''bob'' ''0xbb'')
               \<lparr>u_reputation_score := 50, u_total_trades := 2, u_successful_trades := 1\<rparr>,
             example_user ''carol'' ''0xcc'']"
    unfolding us
    by (simp add: example_rated_reputation [OF rows])
      (simp add: example_user_def example_row_def)
  with p st show ?thesis by blast
qed

end
